theory Spec2Isabelle
  imports Main
begin

section \<open>Errors\<close>

text \<open>
  The source raises \<open>error_codes.X.format(message)\<close>, a \<open>CodeException\<close> carrying an error
  code and a formatted message. The message texts are kept as constructors holding the
  values the source formats into them.
\<close>

datatype message =
    TemplateUpdating
  | AlreadyAuthorizing
  | GroupAuthorizing
  | ActionExists string string
  | ActionExistsOnlyAdd string string
  | TemplateCheckError string int message
  | InstanceLimit string string int
  | NoChange
  | Text string

datatype error_code = VALIDATE_ERROR | INVALID_ARGS | CONFLICT_ERROR

datatype error =
    CodeException error_code message
  | RedisError string
  | DoesNotExist
  | ValueError
  | OtherException string

section \<open>service/resource.py: ResourceIDNameCache\<close>

text \<open>
  The Redis server behind \<open>redis_region.backend.client\<close>: the keys it holds (value and
  time to live in seconds) and, when it is out of order, the exception a pipeline's
  \<open>execute()\<close> raises. A pipeline buffers its commands; nothing reaches the server before
  \<open>execute()\<close>, which is where a failure shows.
\<close>

record redis =
  store :: "string \<rightharpoonup> (string \<times> nat)"
  failure :: "error option"

text \<open>A value of a Python dict whose static type says \<open>str\<close>: it may be anything at run time.\<close>

datatype pyval = PyStr string | PyNone | PyInt int

record resource_id_name_cache =
  cache_system_id :: string
  cache_resource_type_id :: string

definition generate_id_cache_key :: "resource_id_name_cache \<Rightarrow> string \<Rightarrow> string" where
  "generate_id_cache_key c resource_id =
     ''bk_iam:rp:id_name'' @ '':'' @ cache_system_id c @ '':'' @ cache_resource_type_id c
       @ '':'' @ resource_id"

text \<open>\<open>pipe.set(key, name, ex=...)\<close> for each buffered triple, then \<open>pipe.execute()\<close>.\<close>

fun apply_sets :: "(string \<times> string \<times> nat) list \<Rightarrow> (string \<rightharpoonup> (string \<times> nat))
    \<Rightarrow> (string \<rightharpoonup> (string \<times> nat))" where
  "apply_sets [] s = s"
| "apply_sets ((k, v, ex) # rest) s = apply_sets rest (s(k \<mapsto> (v, ex)))"

definition pipeline_execute_sets :: "redis \<Rightarrow> (string \<times> string \<times> nat) list \<Rightarrow> error + redis" where
  "pipeline_execute_sets r cmds =
     (case failure r of
        Some e \<Rightarrow> Inl e
      | None \<Rightarrow> Inr (r\<lparr>store := apply_sets cmds (store r)\<rparr>))"

text \<open>\<open>pipe.get(key)\<close> for each buffered key, then \<open>pipe.execute()\<close>: the ordered replies.\<close>

definition pipeline_execute_gets :: "redis \<Rightarrow> string list \<Rightarrow> error + string option list" where
  "pipeline_execute_gets r keys =
     (case failure r of
        Some e \<Rightarrow> Inl e
      | None \<Rightarrow> Inr (map (\<lambda>k. map_option fst (store r k)) keys))"

text \<open>A dict comprehension over pairs: a later pair with the same key replaces an earlier one.\<close>

definition py_dict :: "('k \<times> 'v) list \<Rightarrow> ('k \<rightharpoonup> 'v)" where
  "py_dict kvs = foldl (\<lambda>m (k, v). m(k \<mapsto> v)) Map.empty kvs"

text \<open>
  \<open>ResourceIDNameCache.set\<close>: only names that are strings are buffered; \<open>except RedisError\<close>
  logs and returns, any other exception propagates.
\<close>

definition cache_set_commands :: "resource_id_name_cache \<Rightarrow> (string \<times> pyval) list
    \<Rightarrow> (string \<times> string \<times> nat) list" where
  "cache_set_commands c id_name_map =
     concat (map (\<lambda>(i, name). case name of
                     PyStr s \<Rightarrow> [(generate_id_cache_key c i, s, 5 * 60)]
                   | PyNone \<Rightarrow> []
                   | PyInt n \<Rightarrow> []) id_name_map)"

definition cache_set :: "resource_id_name_cache \<Rightarrow> (string \<times> pyval) list \<Rightarrow> redis
    \<Rightarrow> (error + unit) \<times> redis" where
  "cache_set c id_name_map r =
     (case pipeline_execute_sets r (cache_set_commands c id_name_map) of
        Inr r' \<Rightarrow> (Inr (), r')
      | Inl (RedisError m) \<Rightarrow> (Inr (), r)
      | Inl e \<Rightarrow> (Inl e, r))"

text \<open>
  \<open>ResourceIDNameCache.get\<close>: on \<open>RedisError\<close> the result list is \<open>[None] * len(ids)\<close>; the
  returned dict pairs the ids with the results.
\<close>

definition cache_get :: "resource_id_name_cache \<Rightarrow> string list \<Rightarrow> redis
    \<Rightarrow> error + (string \<rightharpoonup> string option)" where
  "cache_get c ids r =
     (case pipeline_execute_gets r (map (generate_id_cache_key c) ids) of
        Inr result \<Rightarrow> Inr (py_dict (zip ids result))
      | Inl (RedisError m) \<Rightarrow> Inr (py_dict (zip ids (replicate (length ids) None)))
      | Inl e \<Rightarrow> Inl e)"

section \<open>The policy value model\<close>

text \<open>
  The value classes live in \<open>backend/service/models.py\<close> and \<open>backend/biz/policy.py\<close>; the
  records follow the data model: a policy is one action with its related resource types,
  each a list of conditions over instance paths and attributes, plus an expiration and the
  backend's identifier (0 when unassigned).
\<close>

datatype subject_type = USER | GROUP | DEPARTMENT

record subject =
  subject_type :: subject_type
  subject_id :: string

record path_node =
  node_system_id :: string
  node_type :: string
  node_id :: string
  node_name :: string

type_synonym resource_instance = "path_node list"

record attribute =
  attr_id :: string
  attr_name :: string
  attr_values :: "(string \<times> string) list"

record condition =
  cond_id :: string
  instances :: "resource_instance list"
  attributes :: "attribute list"

record related_resource_type =
  rrt_system_id :: string
  rrt_type :: string
  rrt_condition :: "condition list"

record policy =
  action_id :: string
  related_resource_types :: "related_resource_type list"
  expired_at :: int
  policy_id :: int

text \<open>
  Modelled from the spec: \<open>count_instance()\<close> of a related resource type (defined in
  \<open>backend/biz/policy.py\<close>, which is not among the sources): the total number of concrete
  instances across all its conditions.
\<close>

definition count_instance :: "related_resource_type \<Rightarrow> nat" where
  "count_instance rrt = sum_list (map (\<lambda>c. length (instances c)) (rrt_condition rrt))"

text \<open>
  Modelled from the spec: \<open>set_expired_at(timestamp)\<close> of a policy (not among the sources):
  overwrites the expiration.
\<close>

definition set_expired_at :: "int \<Rightarrow> policy \<Rightarrow> policy" where
  "set_expired_at t p = p\<lparr>expired_at := t\<rparr>"

text \<open>
  Modelled from the spec: \<open>is_expired(now)\<close> of a policy (not among the sources): true when
  \<open>expired_at <= now\<close>.
\<close>

definition is_expired :: "int \<Rightarrow> policy \<Rightarrow> bool" where
  "is_expired now p = (expired_at p \<le> now)"

text \<open>
  Modelled from the spec: \<open>get(action_id)\<close> of a policy list (\<open>PolicyList\<close>,
  \<open>PolicyBeanList\<close>; not among the sources): lookup by action id through an index built once
  at construction. The index is taken to be a dict filled in list order, so the last policy
  of an action is the one found.
\<close>

definition policy_list_get :: "policy list \<Rightarrow> string \<Rightarrow> policy option" where
  "policy_list_get ps a = find (\<lambda>p. action_id p = a) (rev ps)"

section \<open>config/default.py\<close>

text \<open>
  \<open>APPLY_POLICY_ADD_INSTANCES_LIMIT = int(os.getenv("BKAPP_APPLY_POLICY_ADD_INSTANCES_LIMIT", 20))\<close>:
  the argument is the environment variable's value, when set.
\<close>

definition APPLY_POLICY_ADD_INSTANCES_LIMIT :: "int option \<Rightarrow> int" where
  "APPLY_POLICY_ADD_INSTANCES_LIMIT env_value = (case env_value of None \<Rightarrow> 20 | Some v \<Rightarrow> v)"

section \<open>trans/application.py: the instance count limit\<close>

text \<open>
  \<open>_check_application_policy_instance_count_limit\<close>: the inner loop over the related resource
  types of one policy, then the outer loop over the policies. The first count over the limit
  raises; the limit is the setting's value.
\<close>

fun check_rrt_instance_count_limit :: "int \<Rightarrow> string \<Rightarrow> related_resource_type list \<Rightarrow> error option" where
  "check_rrt_instance_count_limit lim a [] = None"
| "check_rrt_instance_count_limit lim a (rrt # rest) =
     (if int (count_instance rrt) > lim
      then Some (CodeException VALIDATE_ERROR (InstanceLimit a (rrt_type rrt) lim))
      else check_rrt_instance_count_limit lim a rest)"

fun check_application_policy_instance_count_limit :: "int \<Rightarrow> policy list \<Rightarrow> error option" where
  "check_application_policy_instance_count_limit lim [] = None"
| "check_application_policy_instance_count_limit lim (p # ps) =
     (case check_rrt_instance_count_limit lim (action_id p) (related_resource_types p) of
        Some e \<Rightarrow> Some e
      | None \<Rightarrow> check_application_policy_instance_count_limit lim ps)"

section \<open>Python's \<open>str\<close> and \<open>int\<close> between integers and strings\<close>

definition digit_char :: "nat \<Rightarrow> char" where
  "digit_char d = ''0123456789'' ! d"

function str_nat :: "nat \<Rightarrow> string" where
  "str_nat n = (if n < 10 then [digit_char n] else str_nat (n div 10) @ [digit_char (n mod 10)])"
  by pat_completeness auto
termination
  by (relation "measure id") auto

declare str_nat.simps [simp del]

definition py_str :: "int \<Rightarrow> string" where
  "py_str i = (if i < 0 then CHR ''-'' # str_nat (nat (- i)) else str_nat (nat i))"

definition digit_value :: "char \<Rightarrow> nat option" where
  "digit_value c =
     (let n = (of_char c :: nat) in if 48 \<le> n \<and> n \<le> 57 then Some (n - 48) else None)"

fun nat_of_digits :: "nat \<Rightarrow> string \<Rightarrow> nat option" where
  "nat_of_digits acc [] = Some acc"
| "nat_of_digits acc (c # cs) =
     (case digit_value c of
        None \<Rightarrow> None
      | Some d \<Rightarrow> nat_of_digits (10 * acc + d) cs)"

text \<open>
  \<open>int(s)\<close> on a run of decimal digits with an optional minus sign, the strings \<open>str\<close>
  produces; anything else is a \<open>ValueError\<close> here (the spaces, plus sign and underscores
  Python also reads do not occur in the ids this program parses).
\<close>

definition py_int :: "string \<Rightarrow> error + int" where
  "py_int s =
     (case s of
        [] \<Rightarrow> Inl ValueError
      | c # cs \<Rightarrow>
          if c = CHR ''-''
          then (if cs = [] then Inl ValueError
                else case nat_of_digits 0 cs of
                       None \<Rightarrow> Inl ValueError
                     | Some n \<Rightarrow> Inr (- int n))
          else (case nat_of_digits 0 s of
                  None \<Rightarrow> Inl ValueError
                | Some n \<Rightarrow> Inr (int n)))"

section \<open>The stored tables\<close>

text \<open>
  The Django models the functions below read and write, as lists of rows. Only the columns
  the modelled functions use are kept.
\<close>

record user_group =
  group_id :: int
  group_name :: string

record role =
  role_id :: int

record group_authorize_lock =
  lock_group_id :: int
  lock_template_id :: int
  lock_system_id :: string
  lock_key :: string
  lock_data :: "policy list"

datatype task_type = GROUP_AUTHORIZATION | OTHER_TASK string

record task_detail =
  task_id :: nat
  task_type :: task_type
  task_args :: "subject \<times> string"

record policy_model =
  pm_id :: nat
  pm_system_id :: string
  pm_subject_type :: subject_type
  pm_subject_id :: string
  pm_action_id :: string
  pm_policy_id :: int
  pm_resources :: "related_resource_type list"

record role_related_object =
  rro_role_id :: int
  rro_object_type :: string
  rro_object_id :: int

record perm_template_policy_authorized =
  pta_template_id :: int
  pta_subject :: subject
  pta_system_id :: string
  pta_actions :: "policy list"

record database =
  groups :: "user_group list"
  group_authorize_locks :: "group_authorize_lock list"
  perm_template_pre_update_locks :: "int list"
  task_details :: "task_detail list"
  policy_models :: "policy_model list"
  role_related_objects :: "role_related_object list"
  template_authorized :: "perm_template_policy_authorized list"
  group_attributes :: "(int \<times> string \<times> string) list"

text \<open>
  \<open>with transaction.atomic(): body\<close>: when the body raises, the writes it made are rolled
  back and the exception goes on to the caller; otherwise they are committed.
\<close>

definition transaction_atomic :: "(database \<Rightarrow> error + ('a \<times> database)) \<Rightarrow> database
    \<Rightarrow> (error + 'a) \<times> database" where
  "transaction_atomic body db =
     (case body db of
        Inl e \<Rightarrow> (Inl e, db)
      | Inr (a, db') \<Rightarrow> (Inr a, db'))"

section \<open>Collaborators that are not among the sources\<close>

text \<open>
  \<open>PolicyBeanList.sub\<close> and \<open>PolicyBeanList.check_resource_name\<close> (\<open>backend/biz/policy.py\<close>),
  taken as parameters: the first is given the system id and the policies of the two lists,
  the second the system id and the policies of the list it is called on, and returns the
  exception it raises, if any.
\<close>

record policy_bean_list_methods =
  sub :: "string \<Rightarrow> policy list \<Rightarrow> policy list \<Rightarrow> policy list"
  check_resource_name :: "string \<Rightarrow> policy list \<Rightarrow> error option"

text \<open>
  What \<open>GroupBiz\<close> and \<open>GroupCheckBiz\<close> call outside the sources, taken as parameters: the
  policy queries, the lookup of a template's authorization, the template check, the role's
  scope checker, the constant \<open>PERMANENT_SECONDS\<close> and the value \<open>gen_uuid()\<close> returns.
\<close>

record group_biz =
  list_by_subject :: "database \<Rightarrow> string \<Rightarrow> subject \<Rightarrow> policy list"
  new_policy_list_by_subject :: "database \<Rightarrow> string \<Rightarrow> subject \<Rightarrow> policy list"
  get_by_subject_template :: "database \<Rightarrow> subject \<Rightarrow> int \<Rightarrow> error + policy list"
  check_add_member :: "database \<Rightarrow> int \<Rightarrow> subject \<Rightarrow> string list \<Rightarrow> error option"
  scope_check_policies :: "role \<Rightarrow> string \<Rightarrow> policy list \<Rightarrow> error option"
  PERMANENT_SECONDS :: int
  gen_uuid :: string

text \<open>The four deletions \<open>GroupBiz.delete\<close> delegates, each a write that may raise.\<close>

record group_delete_ops =
  delete_group_relation :: "int \<Rightarrow> database \<Rightarrow> error + database"
  delete_template_auth_by_subject :: "subject \<Rightarrow> database \<Rightarrow> error + database"
  batch_delete_attributes :: "int list \<Rightarrow> database \<Rightarrow> error + database"
  group_svc_delete :: "int \<Rightarrow> database \<Rightarrow> error + database"

text \<open>
  What may go wrong in the writes of \<open>GroupBiz.grant\<close>: the exception raised by the bulk
  insert of the locks, by the insert of the task record, by handing the task to the runner.
\<close>

record grant_faults =
  lock_bulk_create_error :: "error option"
  task_create_error :: "error option"
  task_delay_error :: "error option"

section \<open>biz/group.py: the group authorization workflow\<close>

record group_template_grant_bean =
  tpl_system_id :: string
  tpl_template_id :: int
  tpl_policies :: "policy list"

text \<open>
  \<open>GroupBiz._check_before_grant\<close>: the ids of the template grants, the systems of the custom
  grants (template id 0), then the two existence queries in the source's order.
\<close>

definition check_before_grant :: "database \<Rightarrow> user_group \<Rightarrow> group_template_grant_bean list
    \<Rightarrow> error option" where
  "check_before_grant db grp templates =
     (let template_ids = [tpl_template_id t. t \<leftarrow> templates, tpl_template_id t \<noteq> 0];
          custom_action_system_ids = [tpl_system_id t. t \<leftarrow> templates, tpl_template_id t = 0]
      in if list_ex (\<lambda>template_id. template_id \<in> set template_ids)
              (perm_template_pre_update_locks db)
         then Some (CodeException VALIDATE_ERROR TemplateUpdating)
         else if list_ex (\<lambda>l. lock_template_id l \<in> set template_ids
                            \<or> (lock_template_id l = 0
                                \<and> lock_system_id l \<in> set custom_action_system_ids))
                   (filter (\<lambda>l. lock_group_id l = group_id grp) (group_authorize_locks db))
         then Some (CodeException VALIDATE_ERROR AlreadyAuthorizing)
         else None)"

text \<open>
  \<open>GroupBiz._valid_grant_actions_not_exists\<close>: the loop over the action ids raises at the
  first one the subject's policy list holds.
\<close>

fun first_existing_action :: "policy list \<Rightarrow> string \<Rightarrow> string list \<Rightarrow> error option" where
  "first_existing_action policy_list system_id [] = None"
| "first_existing_action policy_list system_id (a # rest) =
     (case policy_list_get policy_list a of
        Some p \<Rightarrow> Some (CodeException VALIDATE_ERROR (ActionExists system_id a))
      | None \<Rightarrow> first_existing_action policy_list system_id rest)"

definition valid_grant_actions_not_exists :: "group_biz \<Rightarrow> database \<Rightarrow> subject \<Rightarrow> string
    \<Rightarrow> string list \<Rightarrow> error option" where
  "valid_grant_actions_not_exists biz db subj system_id action_ids =
     (let policy_list = new_policy_list_by_subject biz db system_id subj
      in first_existing_action policy_list system_id action_ids)"

text \<open>
  \<open>except CodeException as e: raise error_codes.VALIDATE_ERROR.format(...)\<close> in
  \<open>_gen_grant_lock\<close>: a \<open>CodeException\<close> is raised again as a validation error that names the
  system and the template; any other exception goes on as it is.
\<close>

definition reraise_validate_error :: "string \<Rightarrow> int \<Rightarrow> error \<Rightarrow> error" where
  "reraise_validate_error system_id template_id e =
     (case e of
        CodeException c m \<Rightarrow> CodeException VALIDATE_ERROR (TemplateCheckError system_id template_id m)
      | RedisError m \<Rightarrow> RedisError m
      | DoesNotExist \<Rightarrow> DoesNotExist
      | ValueError \<Rightarrow> ValueError
      | OtherException m \<Rightarrow> OtherException m)"

text \<open>
  \<open>GroupBiz._gen_grant_lock\<close>. The policies of the bean are objects the function changes in
  place (\<open>set_expired_at\<close>), so the bean is returned as the caller sees it afterwards, next
  to the lock or the exception.
\<close>

definition gen_grant_lock :: "policy_bean_list_methods \<Rightarrow> group_biz \<Rightarrow> database \<Rightarrow> subject
    \<Rightarrow> group_template_grant_bean \<Rightarrow> role \<Rightarrow> string
    \<Rightarrow> (error + group_authorize_lock) \<times> group_template_grant_bean" where
  "gen_grant_lock m biz db subj template rl uuid =
     (let action_ids = map action_id (tpl_policies template)
      in case (if tpl_template_id template \<noteq> 0
               then check_add_member biz db (tpl_template_id template) subj action_ids
               else valid_grant_actions_not_exists biz db subj (tpl_system_id template) action_ids) of
           Some e \<Rightarrow> (Inl e, template)
         | None \<Rightarrow>
            (case check_resource_name m (tpl_system_id template) (tpl_policies template) of
               Some e \<Rightarrow>
                 (Inl (reraise_validate_error (tpl_system_id template) (tpl_template_id template) e),
                  template)
             | None \<Rightarrow>
                (case scope_check_policies biz rl (tpl_system_id template) (tpl_policies template) of
                   Some e \<Rightarrow>
                     (Inl (reraise_validate_error (tpl_system_id template) (tpl_template_id template) e),
                      template)
                 | None \<Rightarrow>
                    (let template' = template\<lparr>tpl_policies :=
                           map (set_expired_at (PERMANENT_SECONDS biz)) (tpl_policies template)\<rparr>
                     in case py_int (subject_id subj) of
                          Inl e \<Rightarrow> (Inl e, template')
                        | Inr gid \<Rightarrow>
                            (Inr \<lparr>lock_group_id = gid,
                                  lock_template_id = tpl_template_id template',
                                  lock_system_id = tpl_system_id template',
                                  lock_key = uuid,
                                  lock_data = tpl_policies template'\<rparr>,
                             template')))))"

text \<open>The loop of \<open>grant\<close> over the templates: it stops at the first exception.\<close>

fun gen_grant_locks :: "policy_bean_list_methods \<Rightarrow> group_biz \<Rightarrow> database \<Rightarrow> subject \<Rightarrow> role
    \<Rightarrow> string \<Rightarrow> group_template_grant_bean list
    \<Rightarrow> (error + group_authorize_lock list) \<times> group_template_grant_bean list" where
  "gen_grant_locks m biz db subj rl uuid [] = (Inr [], [])"
| "gen_grant_locks m biz db subj rl uuid (template # rest) =
     (case gen_grant_lock m biz db subj template rl uuid of
        (Inl e, template') \<Rightarrow> (Inl e, template' # rest)
      | (Inr lock, template') \<Rightarrow>
          (case gen_grant_locks m biz db subj rl uuid rest of
             (Inl e, rest') \<Rightarrow> (Inl e, template' # rest')
           | (Inr locks, rest') \<Rightarrow> (Inr (lock # locks), template' # rest')))"

text \<open>
  \<open>GroupAuthorizeLock.objects.bulk_create(locks)\<close> and \<open>TaskDetail.create(type, args)\<close>: the
  rows are added to their tables; the task record gets an id no stored task has.
\<close>

definition bulk_create_locks :: "grant_faults \<Rightarrow> group_authorize_lock list \<Rightarrow> database
    \<Rightarrow> error + database" where
  "bulk_create_locks flt locks db =
     (case lock_bulk_create_error flt of
        Some e \<Rightarrow> Inl e
      | None \<Rightarrow> Inr (db\<lparr>group_authorize_locks := group_authorize_locks db @ locks\<rparr>))"

definition task_detail_create :: "grant_faults \<Rightarrow> task_type \<Rightarrow> subject \<times> string \<Rightarrow> database
    \<Rightarrow> error + (task_detail \<times> database)" where
  "task_detail_create flt ty args db =
     (case task_create_error flt of
        Some e \<Rightarrow> Inl e
      | None \<Rightarrow>
          (let task = \<lparr>task_id = Suc (foldr max (map task_id (task_details db)) 0),
                       task_type = ty, task_args = args\<rparr>
           in Inr (task, db\<lparr>task_details := task_details db @ [task]\<rparr>)))"

text \<open>
  \<open>GroupBiz.grant\<close>. The result is the exception or normal return, the stored tables
  afterwards, the ids of the tasks handed to the runner (\<open>TaskFactory().delay\<close>), and the
  beans as the caller sees them afterwards.
\<close>

definition grant :: "policy_bean_list_methods \<Rightarrow> group_biz \<Rightarrow> grant_faults \<Rightarrow> role
    \<Rightarrow> user_group \<Rightarrow> group_template_grant_bean list \<Rightarrow> database
    \<Rightarrow> (error + unit) \<times> database \<times> nat list \<times> group_template_grant_bean list" where
  "grant m biz flt rl grp templates db =
     (case check_before_grant db grp templates of
        Some e \<Rightarrow> (Inl e, db, [], templates)
      | None \<Rightarrow>
         (let subj = \<lparr>subject_type = GROUP, subject_id = py_str (group_id grp)\<rparr>;
              uuid = gen_uuid biz
          in case gen_grant_locks m biz db subj rl uuid templates of
               (Inl e, templates') \<Rightarrow> (Inl e, db, [], templates')
             | (Inr locks, templates') \<Rightarrow>
                (case transaction_atomic
                        (\<lambda>d. case bulk_create_locks flt locks d of
                                Inl e \<Rightarrow> Inl e
                              | Inr d' \<Rightarrow> task_detail_create flt GROUP_AUTHORIZATION (subj, uuid) d')
                        db of
                   (Inl e, db') \<Rightarrow> (Inl e, db', [], templates')
                 | (Inr task, db') \<Rightarrow>
                    (case task_delay_error flt of
                       Some e \<Rightarrow> (Inl e, db', [], templates')
                     | None \<Rightarrow> (Inr (), db', [task_id task], templates')))))"

text \<open>
  \<open>GroupCheckBiz.check_grant_policies_without_update\<close>. The source assigns the stored
  policies to the name of its parameter \<open>policies\<close>; the inner binding below does the same,
  so the loop runs over the stored policies.
\<close>

fun first_policy_in_list :: "policy list \<Rightarrow> string \<Rightarrow> policy list \<Rightarrow> error option" where
  "first_policy_in_list policy_list system_id [] = None"
| "first_policy_in_list policy_list system_id (p # rest) =
     (case policy_list_get policy_list (action_id p) of
        Some q \<Rightarrow> Some (CodeException VALIDATE_ERROR (ActionExistsOnlyAdd system_id (action_id p)))
      | None \<Rightarrow> first_policy_in_list policy_list system_id rest)"

definition check_grant_policies_without_update :: "group_biz \<Rightarrow> database \<Rightarrow> int \<Rightarrow> string
    \<Rightarrow> policy list \<Rightarrow> error option" where
  "check_grant_policies_without_update biz db gid system_id policies =
     (let subj = \<lparr>subject_type = GROUP, subject_id = py_str gid\<rparr>;
          policies = list_by_subject biz db system_id subj;
          policy_list = policies
      in first_policy_in_list policy_list system_id policies)"

text \<open>
  \<open>GroupBiz.check_update_policies_resource_name\<close>. Next to the exception, if any, the result
  lists the policy lists \<open>check_resource_name\<close> was called on.
\<close>

definition check_update_policies_resource_name :: "policy_bean_list_methods \<Rightarrow> group_biz
    \<Rightarrow> database \<Rightarrow> string \<Rightarrow> int \<Rightarrow> policy list \<Rightarrow> subject
    \<Rightarrow> policy list list \<times> error option" where
  "check_update_policies_resource_name m biz db system_id template_id policies subj =
     (case (if template_id = 0 then Inr (list_by_subject biz db system_id subj)
            else get_by_subject_template biz db subj template_id) of
        Inl e \<Rightarrow> ([], Some e)
      | Inr old_policies \<Rightarrow>
          (let added_policy_list = sub m system_id policies old_policies
           in ([added_policy_list], check_resource_name m system_id added_policy_list)))"

text \<open>
  \<open>GroupBiz.delete\<close>: the check for a lock of the group, then the five deletions in one
  transaction.
\<close>

definition delete :: "group_delete_ops \<Rightarrow> int \<Rightarrow> database \<Rightarrow> (error + unit) \<times> database" where
  "delete ops gid db =
     (if list_ex (\<lambda>l. lock_group_id l = gid) (group_authorize_locks db)
      then (Inl (CodeException VALIDATE_ERROR GroupAuthorizing), db)
      else
        (let subj = \<lparr>subject_type = GROUP, subject_id = py_str gid\<rparr>
         in transaction_atomic
              (\<lambda>d. case delete_group_relation ops gid d of
                      Inl e \<Rightarrow> Inl e
                    | Inr d1 \<Rightarrow>
                       (case delete_template_auth_by_subject ops subj d1 of
                          Inl e \<Rightarrow> Inl e
                        | Inr d2 \<Rightarrow>
                           (let d3 = d2\<lparr>policy_models :=
                                  filter (\<lambda>p. \<not> (pm_subject_type p = subject_type subj
                                                 \<and> pm_subject_id p = subject_id subj))
                                    (policy_models d2)\<rparr>
                            in case batch_delete_attributes ops [gid] d3 of
                                 Inl e \<Rightarrow> Inl e
                               | Inr d4 \<Rightarrow>
                                  (case group_svc_delete ops gid d4 of
                                     Inl e \<Rightarrow> Inl e
                                   | Inr d5 \<Rightarrow> Inr ((), d5)))))
              db))"

section \<open>Sample data for the scenarios\<close>

text \<open>
  A policy of an action with no resource conditions, an empty set of tables, and
  collaborators of a subject that holds the given policies and whose template, name and
  scope checks all pass.
\<close>

definition action_policy :: "string \<Rightarrow> policy" where
  "action_policy a = \<lparr>action_id = a, related_resource_types = [], expired_at = 0, policy_id = 0\<rparr>"

definition empty_database :: database where
  "empty_database = \<lparr>groups = [], group_authorize_locks = [], perm_template_pre_update_locks = [],
     task_details = [], policy_models = [], role_related_objects = [], template_authorized = [],
     group_attributes = []\<rparr>"

definition biz_with_policies :: "policy list \<Rightarrow> group_biz" where
  "biz_with_policies ps =
     \<lparr>list_by_subject = (\<lambda>db system_id subj. ps),
      new_policy_list_by_subject = (\<lambda>db system_id subj. ps),
      get_by_subject_template = (\<lambda>db subj template_id. Inr ps),
      check_add_member = (\<lambda>db template_id subj action_ids. None),
      scope_check_policies = (\<lambda>rl system_id policies. None),
      PERMANENT_SECONDS = 4102444800,
      gen_uuid = ''9f1c2e''\<rparr>"

definition no_faults :: grant_faults where
  "no_faults = \<lparr>lock_bulk_create_error = None, task_create_error = None, task_delay_error = None\<rparr>"

definition methods_by_action :: policy_bean_list_methods where
  "methods_by_action =
     \<lparr>sub = (\<lambda>system_id policies old. filter (\<lambda>p. policy_list_get old (action_id p) = None) policies),
      check_resource_name = (\<lambda>system_id policies. None)\<rparr>"

text \<open>
  Sample deletions for \<open>GroupBiz.delete\<close>: each removes the rows of the group from its
  table and never raises.
\<close>

definition table_delete_ops :: group_delete_ops where
  "table_delete_ops =
     \<lparr>delete_group_relation = (\<lambda>gid d. Inr (d\<lparr>role_related_objects :=
          filter (\<lambda>r. \<not> (rro_object_type r = ''group'' \<and> rro_object_id r = gid))
            (role_related_objects d)\<rparr>)),
      delete_template_auth_by_subject = (\<lambda>subj d. Inr (d\<lparr>template_authorized :=
          filter (\<lambda>a. pta_subject a \<noteq> subj) (template_authorized d)\<rparr>)),
      batch_delete_attributes = (\<lambda>gids d. Inr (d\<lparr>group_attributes :=
          filter (\<lambda>a. fst a \<notin> set gids) (group_attributes d)\<rparr>)),
      group_svc_delete = (\<lambda>gid d. Inr (d\<lparr>groups :=
          filter (\<lambda>g. group_id g \<noteq> gid) (groups d)\<rparr>))\<rparr>"

section \<open>trans/application.py: the policies an application needs\<close>

text \<open>
  \<open>ApplicationDataTrans\<close> asks \<open>policy_query_biz.new_policy_list\<close> (not among the sources)
  for the applicant's policies; \<open>is_expired()\<close> reads the clock, here the argument \<open>now\<close>.
\<close>

record application_data_trans =
  new_policy_list :: "database \<Rightarrow> string \<Rightarrow> subject \<Rightarrow> policy list"

text \<open>
  Step 4 of \<open>_gen_need_apply_policy_list\<close>: the loop over the requested policies that
  collects \<open>application_policies\<close>.
\<close>

fun application_policies_of :: "int \<Rightarrow> policy list \<Rightarrow> policy list \<Rightarrow> policy list \<Rightarrow> policy list" where
  "application_policies_of now old_policy_list diff_policy_list [] = []"
| "application_policies_of now old_policy_list diff_policy_list (p # ps) =
     (case policy_list_get old_policy_list (action_id p) of
        None \<Rightarrow> p # application_policies_of now old_policy_list diff_policy_list ps
      | Some old_policy \<Rightarrow>
          if is_expired now old_policy
          then p # application_policies_of now old_policy_list diff_policy_list ps
          else (case policy_list_get diff_policy_list (action_id p) of
                  None \<Rightarrow> application_policies_of now old_policy_list diff_policy_list ps
                | Some diff_policy \<Rightarrow>
                    set_expired_at (expired_at old_policy) diff_policy
                      # application_policies_of now old_policy_list diff_policy_list ps))"

text \<open>
  \<open>_gen_need_apply_policy_list\<close>. Next to the exception or the policies to apply for, the
  result lists the policy lists \<open>check_resource_name\<close> was called on.
\<close>

definition gen_need_apply_policy_list :: "policy_bean_list_methods \<Rightarrow> application_data_trans
    \<Rightarrow> int \<Rightarrow> database \<Rightarrow> string \<Rightarrow> string \<Rightarrow> policy list
    \<Rightarrow> policy list list \<times> (error + policy list)" where
  "gen_need_apply_policy_list m tr now db applicant system_id policy_list =
     (let old_policy_list = new_policy_list tr db system_id
                              \<lparr>subject_type = USER, subject_id = applicant\<rparr>;
          diff_policy_list = sub m system_id policy_list old_policy_list
      in case check_resource_name m system_id diff_policy_list of
           Some e \<Rightarrow> ([diff_policy_list], Inl e)
         | None \<Rightarrow>
            (let application_policies =
                   application_policies_of now old_policy_list diff_policy_list policy_list
             in if length application_policies = 0
                then ([diff_policy_list], Inl (CodeException INVALID_ARGS NoChange))
                else ([diff_policy_list], Inr application_policies)))"

section \<open>service/policy/operation.py: PolicyOperationService\<close>

text \<open>
  The backend policy store (\<open>backend.component.iam\<close>) is outside the program: its state is
  of any type \<open>'b\<close>, \<open>alter_policies\<close> answers with the exception it raises, if any, and the
  state it leaves, and \<open>new_backend_policy_list_by_subject\<close> lists the subject's backend
  policies (identifier and action) or raises.
\<close>

record backend_policy =
  bp_id :: int
  bp_action_id :: string

record 'b iam =
  alter_policies :: "'b \<Rightarrow> string \<Rightarrow> subject_type \<Rightarrow> string \<Rightarrow> policy list \<Rightarrow> policy list
      \<Rightarrow> int list \<Rightarrow> error option \<times> 'b"
  new_backend_policy_list_by_subject :: "'b \<Rightarrow> string \<Rightarrow> subject \<Rightarrow> error + backend_policy list"

text \<open>
  Modelled from the spec: \<open>get(action_id)\<close> of the backend policy list (not among the
  sources), the same lookup by action id as \<open>policy_list_get\<close>.
\<close>

definition backend_policy_list_get :: "backend_policy list \<Rightarrow> string \<Rightarrow> backend_policy option" where
  "backend_policy_list_get ps a = find (\<lambda>p. bp_action_id p = a) (rev ps)"

text \<open>
  What the service did, in order: entering and leaving the \<open>transaction.atomic\<close> block
  (by commit or by rollback), its writes to the mirror, its call of the backend, and the
  call of \<open>_sync_db_policy_id\<close>.
\<close>

datatype event =
    AtomicEnter | AtomicCommit | AtomicRollback
  | DbCreate | DbUpdate | DbDelete | BackendAlter | SyncPolicyId

text \<open>
  \<open>transaction.atomic\<close> around a body that also acts outside the database (\<open>x\<close>: what it
  did and left there): the rollback undoes the writes to the tables, nothing else.
\<close>

definition transaction_atomic_with :: "(database \<Rightarrow> (error + database) \<times> 'x) \<Rightarrow> database
    \<Rightarrow> (error + unit) \<times> database \<times> 'x" where
  "transaction_atomic_with body db =
     (case body db of
        (Inl e, x) \<Rightarrow> (Inl e, db, x)
      | (Inr db', x) \<Rightarrow> (Inr (), db', x))"

text \<open>
  Modelled from the spec: \<open>Policy.to_db_model(system_id, subject)\<close> (not among the sources):
  the mirror row of a policy, created with the identifier placeholder 0. The primary key is
  the one the insert assigns.
\<close>

definition to_db_model :: "string \<Rightarrow> subject \<Rightarrow> nat \<Rightarrow> policy \<Rightarrow> policy_model" where
  "to_db_model system_id subj pk p =
     \<lparr>pm_id = pk, pm_system_id = system_id, pm_subject_type = subject_type subj,
      pm_subject_id = subject_id subj, pm_action_id = action_id p, pm_policy_id = 0,
      pm_resources = related_resource_types p\<rparr>"

text \<open>\<open>_create_db_policies\<close>: \<open>bulk_create\<close> gives the new rows primary keys above all stored ones.\<close>

definition create_db_policies :: "string \<Rightarrow> subject \<Rightarrow> policy list \<Rightarrow> database \<Rightarrow> database" where
  "create_db_policies system_id subj policies db =
     (let first_pk = Suc (foldr max (map pm_id (policy_models db)) 0);
          db_policies = map (\<lambda>(i, p). to_db_model system_id subj (first_pk + i) p)
                          (zip [0..<length policies] policies)
      in db\<lparr>policy_models := policy_models db @ db_policies\<rparr>)"

text \<open>
  \<open>_update_db_policies\<close>: the rows of the subject whose \<open>policy_id\<close> is among the updated
  policies' are read once; each that has an updated policy of its action is then updated by
  primary key.
\<close>

definition update_by_pk :: "nat \<Rightarrow> (policy_model \<Rightarrow> policy_model) \<Rightarrow> policy_model list
    \<Rightarrow> policy_model list" where
  "update_by_pk pk f rows = map (\<lambda>r. if pm_id r = pk then f r else r) rows"

definition update_db_policies :: "string \<Rightarrow> subject \<Rightarrow> policy list \<Rightarrow> database \<Rightarrow> database" where
  "update_db_policies system_id subj policies db =
     (let ids = map policy_id policies;
          db_policies = filter (\<lambda>r. pm_subject_id r = subject_id subj
                                   \<and> pm_subject_type r = subject_type subj
                                   \<and> pm_system_id r = system_id
                                   \<and> pm_policy_id r \<in> set ids) (policy_models db)
      in db\<lparr>policy_models :=
            fold (\<lambda>p rows. case policy_list_get policies (pm_action_id p) of
                             None \<Rightarrow> rows
                           | Some update_policy \<Rightarrow>
                               update_by_pk (pm_id p)
                                 (\<lambda>r. r\<lparr>pm_resources := related_resource_types update_policy\<rparr>) rows)
              db_policies (policy_models db)\<rparr>)"

text \<open>\<open>_delete_db_policies\<close>.\<close>

definition delete_db_policies :: "string \<Rightarrow> subject \<Rightarrow> int list \<Rightarrow> database \<Rightarrow> database" where
  "delete_db_policies system_id subj policy_ids db =
     db\<lparr>policy_models :=
          filter (\<lambda>r. \<not> (pm_system_id r = system_id
                          \<and> pm_subject_type r = subject_type subj
                          \<and> pm_subject_id r = subject_id subj
                          \<and> pm_policy_id r \<in> set policy_ids)) (policy_models db)\<rparr>"

text \<open>
  \<open>_alter_backend_policies\<close>: the backend is given the policies themselves
  (\<open>to_backend_dict\<close> only changes their form).
\<close>

definition alter_backend_policies :: "'b iam \<Rightarrow> 'b \<Rightarrow> string \<Rightarrow> subject \<Rightarrow> policy list
    \<Rightarrow> policy list \<Rightarrow> int list \<Rightarrow> error option \<times> 'b" where
  "alter_backend_policies svc b system_id subj create_policies update_policies delete_policy_ids =
     alter_policies svc b system_id (subject_type subj) (subject_id subj)
       create_policies update_policies delete_policy_ids"

text \<open>
  \<open>_sync_db_policy_id\<close>: the rows of the subject with \<open>policy_id\<close> 0 are read; when there are
  none it returns; else the backend's list is fetched, each row that has a backend policy of
  its action takes that policy's id, and \<open>bulk_update\<close> writes the field back by primary key.
\<close>

definition sync_db_policy_id :: "'b iam \<Rightarrow> 'b \<Rightarrow> string \<Rightarrow> subject \<Rightarrow> database
    \<Rightarrow> (error + unit) \<times> database" where
  "sync_db_policy_id svc b system_id subj db =
     (let db_policies = filter (\<lambda>r. pm_system_id r = system_id
                                   \<and> pm_subject_type r = subject_type subj
                                   \<and> pm_subject_id r = subject_id subj
                                   \<and> pm_policy_id r = 0) (policy_models db)
      in if length db_policies = 0 then (Inr (), db)
         else (case new_backend_policy_list_by_subject svc b system_id subj of
                 Inl e \<Rightarrow> (Inl e, db)
               | Inr backend_policy_list \<Rightarrow>
                  (let db_policies' =
                         map (\<lambda>p. case backend_policy_list_get backend_policy_list (pm_action_id p) of
                                     None \<Rightarrow> p
                                   | Some backend_policy \<Rightarrow> p\<lparr>pm_policy_id := bp_id backend_policy\<rparr>)
                           db_policies
                   in (Inr (),
                       db\<lparr>policy_models :=
                            fold (\<lambda>p rows. update_by_pk (pm_id p)
                                    (\<lambda>r. r\<lparr>pm_policy_id := pm_policy_id p\<rparr>) rows)
                              db_policies' (policy_models db)\<rparr>))))"

text \<open>
  The \<open>with transaction.atomic()\<close> block of \<open>alter\<close>: the three writes to the mirror, each
  only for a non-empty argument, then the call of the backend when any argument is non-empty.
\<close>

definition alter_transaction :: "'b iam \<Rightarrow> string \<Rightarrow> subject \<Rightarrow> policy list \<Rightarrow> policy list
    \<Rightarrow> int list \<Rightarrow> 'b \<Rightarrow> database \<Rightarrow> (error + database) \<times> 'b \<times> event list" where
  "alter_transaction svc system_id subj create_policies update_policies delete_policy_ids b db =
     (let (db1, ev1) = (if create_policies \<noteq> []
                        then (create_db_policies system_id subj create_policies db, [DbCreate])
                        else (db, []));
          (db2, ev2) = (if update_policies \<noteq> []
                        then (update_db_policies system_id subj update_policies db1, ev1 @ [DbUpdate])
                        else (db1, ev1));
          (db3, ev3) = (if delete_policy_ids \<noteq> []
                        then (delete_db_policies system_id subj delete_policy_ids db2, ev2 @ [DbDelete])
                        else (db2, ev2))
      in if create_policies \<noteq> [] \<or> update_policies \<noteq> [] \<or> delete_policy_ids \<noteq> []
         then (case alter_backend_policies svc b system_id subj create_policies update_policies
                      delete_policy_ids of
                 (Some e, b') \<Rightarrow> (Inl e, b', ev3 @ [BackendAlter])
               | (None, b') \<Rightarrow> (Inr db3, b', ev3 @ [BackendAlter]))
         else (Inr db3, b, ev3))"

text \<open>\<open>x or []\<close> for an optional list argument: \<open>None\<close> and the empty list both give \<open>[]\<close>.\<close>

definition or_empty :: "'a list option \<Rightarrow> 'a list" where
  "or_empty arg = (case arg of None \<Rightarrow> [] | Some xs \<Rightarrow> xs)"

text \<open>
  \<open>PolicyOperationService.alter\<close>: the optional arguments default to empty lists; after the
  transaction, the identifiers are synchronised when there were policies to create.
\<close>

definition alter :: "'b iam \<Rightarrow> string \<Rightarrow> subject \<Rightarrow> policy list option \<Rightarrow> policy list option
    \<Rightarrow> int list option \<Rightarrow> 'b \<Rightarrow> database \<Rightarrow> (error + unit) \<times> database \<times> 'b \<times> event list" where
  "alter svc system_id subj create_arg update_arg delete_arg b db =
     (let create_policies = or_empty create_arg;
          update_policies = or_empty update_arg;
          delete_policy_ids = or_empty delete_arg
      in case transaction_atomic_with
                (alter_transaction svc system_id subj create_policies update_policies
                   delete_policy_ids b) db of
           (Inl e, db', b', evs) \<Rightarrow> (Inl e, db', b', AtomicEnter # evs @ [AtomicRollback])
         | (Inr ok, db', b', evs) \<Rightarrow>
             if create_policies \<noteq> []
             then (case sync_db_policy_id svc b' system_id subj db' of
                     (r, db'') \<Rightarrow>
                       (r, db'', b', AtomicEnter # evs @ [AtomicCommit, SyncPolicyId]))
             else (Inr (), db', b', AtomicEnter # evs @ [AtomicCommit]))"

text \<open>
  A sample backend for the scenarios: its state is the list of the subject's backend
  policies; \<open>alter_policies\<close> raises the given exception, if any, and else drops the deleted
  identifiers and adds the created policies with identifiers from 100 on.
\<close>

definition sample_iam :: "error option \<Rightarrow> (backend_policy list) iam" where
  "sample_iam alter_failure =
     \<lparr>alter_policies = (\<lambda>b system_id subject_type subject_id cs us ds.
          case alter_failure of
            Some e \<Rightarrow> (Some e, b)
          | None \<Rightarrow> (None, filter (\<lambda>p. bp_id p \<notin> set ds) b
                           @ map (\<lambda>(i, p). \<lparr>bp_id = 100 + int i, bp_action_id = action_id p\<rparr>)
                               (zip [0..<length cs] cs))),
      new_backend_policy_list_by_subject = (\<lambda>b system_id subj. Inr b)\<rparr>"

text \<open>
  Sample list methods that look at the instances: a policy of one action over hosts given
  by id and name; a \<open>sub\<close> that drops from each condition the instances the other list's
  policy of the action already holds (and the conditions and policies left empty); a name
  check against a table of canonical names by instance id.
\<close>

definition host_policy :: "string \<Rightarrow> (string \<times> string) list \<Rightarrow> policy" where
  "host_policy a hosts =
     \<lparr>action_id = a,
      related_resource_types =
        [\<lparr>rrt_system_id = ''bk_cmdb'', rrt_type = ''host'',
          rrt_condition =
            [\<lparr>cond_id = ''c1'',
              instances = map (\<lambda>(i, n). [\<lparr>node_system_id = ''bk_cmdb'', node_type = ''host'',
                                            node_id = i, node_name = n\<rparr>]) hosts,
              attributes = []\<rparr>]\<rparr>],
      expired_at = 4102444800, policy_id = 0\<rparr>"

definition sub_instances :: "string \<Rightarrow> policy list \<Rightarrow> policy list \<Rightarrow> policy list" where
  "sub_instances system_id policies old =
     concat (map (\<lambda>p. case policy_list_get old (action_id p) of
                         None \<Rightarrow> [p]
                       | Some q \<Rightarrow>
                          (let granted = concat (map instances
                                           (concat (map rrt_condition (related_resource_types q))));
                               rrts = map (\<lambda>rrt. rrt\<lparr>rrt_condition :=
                                        filter (\<lambda>c. instances c \<noteq> [])
                                          (map (\<lambda>c. c\<lparr>instances :=
                                                  filter (\<lambda>i. i \<notin> set granted) (instances c)\<rparr>)
                                             (rrt_condition rrt))\<rparr>)
                                        (related_resource_types p)
                           in if list_all (\<lambda>rrt. rrt_condition rrt = []) rrts then []
                              else [p\<lparr>related_resource_types := rrts\<rparr>]))
               policies)"

definition check_names :: "(string \<times> string) list \<Rightarrow> string \<Rightarrow> policy list \<Rightarrow> error option" where
  "check_names canonical system_id policies =
     (if list_ex (\<lambda>n. case map_of canonical (node_id n) of
                         None \<Rightarrow> False
                       | Some name \<Rightarrow> name \<noteq> node_name n)
           (concat (concat (map instances (concat (map rrt_condition
              (concat (map related_resource_types policies)))))))
      then Some (CodeException VALIDATE_ERROR (Text ''resource name''))
      else None)"

definition methods_by_instance :: "(string \<times> string) list \<Rightarrow> policy_bean_list_methods" where
  "methods_by_instance canonical = \<lparr>sub = sub_instances, check_resource_name = check_names canonical\<rparr>"

section \<open>Theorems\<close>

subsection \<open>Integers and their decimal strings\<close>

lemma digit_cases: "d < 10 \<Longrightarrow> d \<in> {0, 1, 2, 3, 4, 5, 6, 7, 8, 9 :: nat}"
  by auto

lemma digit_value_digit_char: "d < 10 \<Longrightarrow> digit_value (digit_char d) = Some d"
  using digit_cases [of d] by (auto simp: digit_value_def digit_char_def)

lemma digit_char_not_minus: "d < 10 \<Longrightarrow> digit_char d \<noteq> CHR ''-''"
  using digit_cases [of d] by (auto simp: digit_char_def)

lemma nat_of_digits_append:
  "nat_of_digits acc (xs @ ys) = (case nat_of_digits acc xs of None \<Rightarrow> None | Some a \<Rightarrow> nat_of_digits a ys)"
  by (induction xs arbitrary: acc) (auto split: option.splits)

lemma str_nat_not_empty: "str_nat n \<noteq> []"
  by (subst str_nat.simps) simp

lemma hd_str_nat_not_minus: "hd (str_nat n) \<noteq> CHR ''-''"
proof (induction n rule: str_nat.induct)
  case (1 n)
  show ?case
  proof (cases "n < 10")
    case True
    then show ?thesis by (subst str_nat.simps) (simp add: digit_char_not_minus)
  next
    case False
    with 1 have "hd (str_nat (n div 10)) \<noteq> CHR ''-''" by simp
    with False show ?thesis
      by (subst str_nat.simps) (simp add: str_nat_not_empty)
  qed
qed

lemma nat_of_digits_str_nat: "nat_of_digits acc (str_nat n) = Some (acc * 10 ^ length (str_nat n) + n)"
proof (induction n arbitrary: acc rule: str_nat.induct)
  case (1 n)
  show ?case
  proof (cases "n < 10")
    case True
    then show ?thesis by (subst (1 2) str_nat.simps) (simp add: digit_value_digit_char)
  next
    case False
    have m: "n mod 10 < 10" by simp
    from False 1 have ih: "nat_of_digits acc (str_nat (n div 10))
        = Some (acc * 10 ^ length (str_nat (n div 10)) + n div 10)" by simp
    have "nat_of_digits acc (str_nat n)
        = nat_of_digits acc (str_nat (n div 10) @ [digit_char (n mod 10)])"
      using False by (subst str_nat.simps) simp
    also have "\<dots> = Some (10 * (acc * 10 ^ length (str_nat (n div 10)) + n div 10) + n mod 10)"
      by (simp add: nat_of_digits_append ih digit_value_digit_char [OF m])
    also have "10 * (acc * 10 ^ length (str_nat (n div 10)) + n div 10) + n mod 10
        = acc * 10 ^ length (str_nat n) + n"
      using False by (subst (2) str_nat.simps) (simp add: algebra_simps)
    finally show ?thesis .
  qed
qed

lemma py_int_py_str: "py_int (py_str i) = Inr i"
proof (cases "i < 0")
  case True
  then show ?thesis
    by (simp add: py_int_def py_str_def str_nat_not_empty nat_of_digits_str_nat)
next
  case False
  obtain c cs where s: "str_nat (nat i) = c # cs"
    using str_nat_not_empty [of "nat i"] by (cases "str_nat (nat i)") auto
  with hd_str_nat_not_minus [of "nat i"] have "c \<noteq> CHR ''-''" by simp
  moreover have "nat_of_digits 0 (c # cs) = Some (nat i)"
    using nat_of_digits_str_nat [of 0 "nat i"] s by simp
  ultimately show ?thesis using False s
    by (simp add: py_int_def py_str_def)
qed

subsection \<open>The id-to-name cache\<close>

lemma foldl_upd_replicate:
  "foldl (\<lambda>m (k, v). m(k \<mapsto> v)) m0 (zip ids (replicate (length ids) w))
     = (\<lambda>k. if k \<in> set ids then Some w else m0 k)"
proof (induction ids arbitrary: m0)
  case Nil
  show ?case by simp
next
  case (Cons i ids)
  have "foldl (\<lambda>m (k, v). m(k \<mapsto> v)) m0 (zip (i # ids) (replicate (length (i # ids)) w))
      = foldl (\<lambda>m (k, v). m(k \<mapsto> v)) (m0(i \<mapsto> w)) (zip ids (replicate (length ids) w))"
    by simp
  also have "\<dots> = (\<lambda>k. if k \<in> set ids then Some w else (m0(i \<mapsto> w)) k)"
    by (rule Cons.IH)
  also have "\<dots> = (\<lambda>k. if k \<in> set (i # ids) then Some w else m0 k)"
    by (rule ext) simp
  finally show ?case .
qed

lemma py_dict_all_none:
  "py_dict (zip ids (replicate (length ids) w)) = (\<lambda>k. if k \<in> set ids then Some w else None)"
  unfolding py_dict_def by (rule foldl_upd_replicate)

text \<open>
  C9. A Redis error never reaches the caller of the cache: \<open>set\<close> returns normally and the
  server's keys are as before; \<open>get\<close> returns a dict whose keys are exactly the requested
  ids, each mapped to \<open>None\<close>.
\<close>

theorem cache_redis_error_degrades_to_miss:
  assumes "failure r = Some (RedisError m)"
  shows "cache_set c id_name_map r = (Inr (), r)
       \<and> (\<exists>d. cache_get c ids r = Inr d
              \<and> dom d = set ids
              \<and> (\<forall>i \<in> set ids. d i = Some None))"
  using assms
  by (auto simp: cache_set_def cache_get_def pipeline_execute_sets_def pipeline_execute_gets_def
      py_dict_all_none split: if_splits)

theorem cache_redis_error_degrades_to_miss_witness:
  "cache_set \<lparr>cache_system_id = ''bk_cmdb'', cache_resource_type_id = ''host''\<rparr>
       [(''1'', PyStr ''web-1''), (''2'', PyNone)]
       \<lparr>store = Map.empty, failure = Some (RedisError ''connection refused'')\<rparr>
     = (Inr (), \<lparr>store = Map.empty, failure = Some (RedisError ''connection refused'')\<rparr>)
   \<and> (\<exists>d. cache_get \<lparr>cache_system_id = ''bk_cmdb'', cache_resource_type_id = ''host''\<rparr>
            [''1'', ''2'']
            \<lparr>store = Map.empty, failure = Some (RedisError ''connection refused'')\<rparr> = Inr d
          \<and> d ''1'' = Some None \<and> d ''2'' = Some None \<and> d ''3'' = None)"
proof -
  let ?r = "\<lparr>store = Map.empty, failure = Some (RedisError ''connection refused'')\<rparr>"
  let ?c = "\<lparr>cache_system_id = ''bk_cmdb'', cache_resource_type_id = ''host''\<rparr>"
  have f: "failure ?r = Some (RedisError ''connection refused'')" by simp
  from cache_redis_error_degrades_to_miss [OF f, of ?c "[(''1'', PyStr ''web-1''), (''2'', PyNone)]" "[''1'', ''2'']"]
  obtain d where s: "cache_set ?c [(''1'', PyStr ''web-1''), (''2'', PyNone)] ?r = (Inr (), ?r)"
    and g: "cache_get ?c [''1'', ''2''] ?r = Inr d"
    and dm: "dom d = set [''1'', ''2'']"
    and al: "\<forall>i \<in> set [''1'', ''2'']. d i = Some None"
    by blast
  from dm have "''3'' \<notin> dom d" by simp
  then have "d ''3'' = None" by blast
  with s g al show ?thesis by simp
qed

subsection \<open>The instance count limit of an application\<close>

lemma check_rrt_none:
  "(check_rrt_instance_count_limit lim a rrts = None)
     = (\<forall>rrt \<in> set rrts. int (count_instance rrt) \<le> lim)"
  by (induction rrts) auto

lemma check_rrt_some:
  "check_rrt_instance_count_limit lim a rrts = Some e \<Longrightarrow>
     \<exists>rrt \<in> set rrts. lim < int (count_instance rrt)
        \<and> e = CodeException VALIDATE_ERROR (InstanceLimit a (rrt_type rrt) lim)"
  by (induction rrts) (auto split: if_splits)

lemma check_policies_none:
  "(check_application_policy_instance_count_limit lim ps = None)
     = (\<forall>p \<in> set ps. \<forall>rrt \<in> set (related_resource_types p). int (count_instance rrt) \<le> lim)"
proof (induction ps)
  case Nil
  show ?case by simp
next
  case (Cons p ps)
  show ?case
  proof (cases "check_rrt_instance_count_limit lim (action_id p) (related_resource_types p)")
    case None
    then have "\<forall>rrt \<in> set (related_resource_types p). int (count_instance rrt) \<le> lim"
      by (simp add: check_rrt_none)
    with None Cons.IH show ?thesis by simp
  next
    case (Some e)
    then have "\<not> (\<forall>rrt \<in> set (related_resource_types p). int (count_instance rrt) \<le> lim)"
      using check_rrt_none [of lim "action_id p" "related_resource_types p"] by simp
    with Some show ?thesis by simp
  qed
qed

lemma check_policies_some:
  "check_application_policy_instance_count_limit lim ps = Some e \<Longrightarrow>
     \<exists>p \<in> set ps. \<exists>rrt \<in> set (related_resource_types p). lim < int (count_instance rrt)
        \<and> e = CodeException VALIDATE_ERROR (InstanceLimit (action_id p) (rrt_type rrt) lim)"
proof (induction ps)
  case Nil
  then show ?case by simp
next
  case (Cons p ps)
  show ?case
  proof (cases "check_rrt_instance_count_limit lim (action_id p) (related_resource_types p)")
    case None
    with Cons show ?thesis by auto
  next
    case (Some e')
    with Cons.prems have "e' = e" by simp
    with Some check_rrt_some [of lim "action_id p" "related_resource_types p" e]
    show ?thesis by auto
  qed
qed

text \<open>
  C8. The check over the policies of an application fails exactly when some related
  resource type of some policy counts more instances than the limit (a count equal to the
  limit passes); the failure is a validation error that names the action and the resource
  type of an offending entry; the limit defaults to 20.
\<close>

theorem instance_count_limit_check:
  "(check_application_policy_instance_count_limit lim ps = None
      \<longleftrightarrow> (\<forall>p \<in> set ps. \<forall>rrt \<in> set (related_resource_types p). int (count_instance rrt) \<le> lim))
   \<and> (\<forall>e. check_application_policy_instance_count_limit lim ps = Some e \<longrightarrow>
         (\<exists>p \<in> set ps. \<exists>rrt \<in> set (related_resource_types p). lim < int (count_instance rrt)
            \<and> e = CodeException VALIDATE_ERROR (InstanceLimit (action_id p) (rrt_type rrt) lim)))
   \<and> APPLY_POLICY_ADD_INSTANCES_LIMIT None = 20"
  using check_policies_none check_policies_some
  by (simp add: APPLY_POLICY_ADD_INSTANCES_LIMIT_def)

theorem instance_count_limit_check_witness:
  "check_application_policy_instance_count_limit (APPLY_POLICY_ADD_INSTANCES_LIMIT None)
     [\<lparr>action_id = ''view'', related_resource_types =
         [\<lparr>rrt_system_id = ''bk_cmdb'', rrt_type = ''host'', rrt_condition =
             [\<lparr>cond_id = '''', instances = replicate 20 [], attributes = []\<rparr>]\<rparr>],
        expired_at = 0, policy_id = 0\<rparr>] = None
   \<and> check_application_policy_instance_count_limit (APPLY_POLICY_ADD_INSTANCES_LIMIT None)
     [\<lparr>action_id = ''view'', related_resource_types =
         [\<lparr>rrt_system_id = ''bk_cmdb'', rrt_type = ''host'', rrt_condition =
             [\<lparr>cond_id = '''', instances = replicate 21 [], attributes = []\<rparr>]\<rparr>],
        expired_at = 0, policy_id = 0\<rparr>]
     = Some (CodeException VALIDATE_ERROR (InstanceLimit ''view'' ''host'' 20))"
proof -
  let ?p = "\<lambda>n. \<lparr>action_id = ''view'', related_resource_types =
         [\<lparr>rrt_system_id = ''bk_cmdb'', rrt_type = ''host'', rrt_condition =
             [\<lparr>cond_id = '''', instances = replicate n ([] :: path_node list), attributes = []\<rparr>]\<rparr>],
        expired_at = 0, policy_id = 0\<rparr>"
  have lim: "APPLY_POLICY_ADD_INSTANCES_LIMIT None = 20"
    using instance_count_limit_check [of 20 "[]"] by simp
  have a: "check_application_policy_instance_count_limit 20 [?p 20] = None"
    using instance_count_limit_check [of 20 "[?p 20]"] by (simp add: count_instance_def)
  have "check_application_policy_instance_count_limit 20 [?p 21] \<noteq> None"
    using instance_count_limit_check [of 20 "[?p 21]"] by (simp add: count_instance_def)
  then obtain e where e: "check_application_policy_instance_count_limit 20 [?p 21] = Some e"
    by blast
  then have "e = CodeException VALIDATE_ERROR (InstanceLimit ''view'' ''host'' 20)"
    using instance_count_limit_check [of 20 "[?p 21]"] by simp
  with e a lim show ?thesis by simp
qed

subsection \<open>Add-only custom grants\<close>

lemma policy_list_get_None: "(policy_list_get ps a = None) = (a \<notin> action_id ` set ps)"
  by (auto simp: policy_list_get_def find_None_iff)

lemma policy_list_get_Some:
  "policy_list_get ps a = Some p \<Longrightarrow> p \<in> set ps \<and> action_id p = a"
  unfolding policy_list_get_def
  using find_Some_iff [of "\<lambda>p. action_id p = a" "rev ps" p]
  by (metis nth_mem set_rev)

lemma first_existing_action_None:
  "(first_existing_action policy_list system_id action_ids = None)
     = (set action_ids \<inter> action_id ` set policy_list = {})"
  by (induction action_ids)
     (auto simp: policy_list_get_None split: option.splits dest: policy_list_get_Some)

lemma first_existing_action_Some:
  "first_existing_action policy_list system_id action_ids = Some e \<Longrightarrow>
     \<exists>a \<in> set action_ids. a \<in> action_id ` set policy_list
        \<and> e = CodeException VALIDATE_ERROR (ActionExists system_id a)"
  by (induction action_ids)
     (auto simp: policy_list_get_None split: option.splits dest: policy_list_get_Some)

text \<open>
  The check of the grant workflow, \<open>_valid_grant_actions_not_exists\<close>, is add-only as the
  docstrings say: it passes exactly when no submitted action is among the subject's.
\<close>

lemma valid_grant_actions_not_exists_None:
  "(valid_grant_actions_not_exists biz db subj system_id action_ids = None)
     = (set action_ids \<inter> action_id ` set (new_policy_list_by_subject biz db system_id subj) = {})"
  by (simp add: valid_grant_actions_not_exists_def first_existing_action_None)

lemma first_policy_in_list_self:
  "set ps \<subseteq> set policy_list \<Longrightarrow>
     (first_policy_in_list policy_list system_id ps = None) = (ps = [])"
  by (cases ps) (auto simp: policy_list_get_None split: option.splits)

text \<open>
  \<open>check_grant_policies_without_update\<close> never looks at the policies it is given: it passes
  exactly when the subject holds no policy of the system at all.
\<close>

lemma check_grant_policies_without_update_None:
  "(check_grant_policies_without_update biz db gid system_id policies = None)
     = (list_by_subject biz db system_id \<lparr>subject_type = GROUP, subject_id = py_str gid\<rparr> = [])"
  by (simp add: check_grant_policies_without_update_def Let_def first_policy_in_list_self)

text \<open>
  C4. The claim fails on \<open>GroupCheckBiz.check_grant_policies_without_update\<close>: group 7 holds
  \<open>view\<close> on the system and is granted the disjoint action \<open>edit\<close>; the check raises (naming
  \<open>view\<close>), where the sibling check \<open>_valid_grant_actions_not_exists\<close> passes on the same
  data.
\<close>

theorem check_grant_policies_without_update_disjoint_action:
  "check_grant_policies_without_update (biz_with_policies [action_policy ''view''])
       empty_database 7 ''bk_cmdb'' [action_policy ''edit'']
     = Some (CodeException VALIDATE_ERROR (ActionExistsOnlyAdd ''bk_cmdb'' ''view''))
   \<and> valid_grant_actions_not_exists (biz_with_policies [action_policy ''view''])
       empty_database \<lparr>subject_type = GROUP, subject_id = py_str 7\<rparr> ''bk_cmdb'' [''edit'']
     = None"
  by (simp add: check_grant_policies_without_update_def valid_grant_actions_not_exists_def
      biz_with_policies_def action_policy_def policy_list_get_def)

subsection \<open>The pre-check of a group grant\<close>

lemma check_before_grant_None:
  "(check_before_grant db grp templates = None)
     = ((\<forall>t \<in> set (perm_template_pre_update_locks db).
            \<not> (t \<noteq> 0 \<and> t \<in> tpl_template_id ` set templates))
        \<and> (\<forall>l \<in> set (group_authorize_locks db).
              \<not> (lock_group_id l = group_id grp
                  \<and> ((lock_template_id l \<noteq> 0 \<and> lock_template_id l \<in> tpl_template_id ` set templates)
                      \<or> (lock_template_id l = 0
                          \<and> (\<exists>t \<in> set templates. tpl_template_id t = 0
                                 \<and> tpl_system_id t = lock_system_id l))))))"
proof -
  let ?ids = "[tpl_template_id t. t \<leftarrow> templates, tpl_template_id t \<noteq> 0]"
  let ?systems = "[tpl_system_id t. t \<leftarrow> templates, tpl_template_id t = 0]"
  have ids: "\<And>i. i \<in> set ?ids \<longleftrightarrow> i \<noteq> 0 \<and> i \<in> tpl_template_id ` set templates"
    by auto
  have systems: "\<And>s. s \<in> set ?systems
      \<longleftrightarrow> (\<exists>t \<in> set templates. tpl_template_id t = 0 \<and> tpl_system_id t = s)"
    by auto
  have "(check_before_grant db grp templates = None)
      = (\<not> list_ex (\<lambda>template_id. template_id \<in> set ?ids) (perm_template_pre_update_locks db)
         \<and> \<not> list_ex (\<lambda>l. lock_template_id l \<in> set ?ids
                            \<or> (lock_template_id l = 0 \<and> lock_system_id l \<in> set ?systems))
               (filter (\<lambda>l. lock_group_id l = group_id grp) (group_authorize_locks db)))"
    unfolding check_before_grant_def Let_def by simp
  also have "\<dots> = ((\<forall>t \<in> set (perm_template_pre_update_locks db).
            \<not> (t \<noteq> 0 \<and> t \<in> tpl_template_id ` set templates))
        \<and> (\<forall>l \<in> set (group_authorize_locks db).
              \<not> (lock_group_id l = group_id grp
                  \<and> ((lock_template_id l \<noteq> 0 \<and> lock_template_id l \<in> tpl_template_id ` set templates)
                      \<or> (lock_template_id l = 0
                          \<and> (\<exists>t \<in> set templates. tpl_template_id t = 0
                                 \<and> tpl_system_id t = lock_system_id l))))))"
    unfolding list_ex_iff ids systems by auto
  finally show ?thesis .
qed

lemma check_before_grant_Some:
  "check_before_grant db grp templates = Some e \<Longrightarrow> \<exists>msg. e = CodeException VALIDATE_ERROR msg"
  unfolding check_before_grant_def Let_def
  by (auto split: if_splits)

text \<open>
  C1. A lock of the group on a requested template, or a custom lock (template id 0) of
  the group on the system of a requested custom grant, makes \<open>grant\<close> raise a validation
  error with the tables as they were and no task handed over; and the pre-check passes
  exactly when no requested template is being updated and every lock of the group is on
  another template or another system.
\<close>

theorem grant_lock_mutual_exclusion:
  "((\<exists>l \<in> set (group_authorize_locks db). lock_group_id l = group_id grp
        \<and> ((lock_template_id l \<noteq> 0 \<and> lock_template_id l \<in> tpl_template_id ` set templates)
            \<or> (lock_template_id l = 0
                \<and> (\<exists>t \<in> set templates. tpl_template_id t = 0
                       \<and> tpl_system_id t = lock_system_id l))))
     \<longrightarrow> (\<exists>msg. grant m biz flt rl grp templates db
                 = (Inl (CodeException VALIDATE_ERROR msg), db, [], templates)))
   \<and> ((check_before_grant db grp templates = None)
        = ((\<forall>t \<in> set (perm_template_pre_update_locks db).
               \<not> (t \<noteq> 0 \<and> t \<in> tpl_template_id ` set templates))
           \<and> (\<forall>l \<in> set (group_authorize_locks db).
                 \<not> (lock_group_id l = group_id grp
                     \<and> ((lock_template_id l \<noteq> 0
                           \<and> lock_template_id l \<in> tpl_template_id ` set templates)
                         \<or> (lock_template_id l = 0
                             \<and> (\<exists>t \<in> set templates. tpl_template_id t = 0
                                    \<and> tpl_system_id t = lock_system_id l)))))))"
proof (intro conjI impI)
  assume "\<exists>l \<in> set (group_authorize_locks db). lock_group_id l = group_id grp
        \<and> ((lock_template_id l \<noteq> 0 \<and> lock_template_id l \<in> tpl_template_id ` set templates)
            \<or> (lock_template_id l = 0
                \<and> (\<exists>t \<in> set templates. tpl_template_id t = 0
                       \<and> tpl_system_id t = lock_system_id l)))"
  then have "check_before_grant db grp templates \<noteq> None"
    unfolding check_before_grant_None by blast
  then obtain e where e: "check_before_grant db grp templates = Some e" by blast
  then obtain msg where "e = CodeException VALIDATE_ERROR msg"
    using check_before_grant_Some by blast
  with e show "\<exists>msg. grant m biz flt rl grp templates db
                 = (Inl (CodeException VALIDATE_ERROR msg), db, [], templates)"
    by (simp add: grant_def)
next
  show "(check_before_grant db grp templates = None)
        = ((\<forall>t \<in> set (perm_template_pre_update_locks db).
               \<not> (t \<noteq> 0 \<and> t \<in> tpl_template_id ` set templates))
           \<and> (\<forall>l \<in> set (group_authorize_locks db).
                 \<not> (lock_group_id l = group_id grp
                     \<and> ((lock_template_id l \<noteq> 0
                           \<and> lock_template_id l \<in> tpl_template_id ` set templates)
                         \<or> (lock_template_id l = 0
                             \<and> (\<exists>t \<in> set templates. tpl_template_id t = 0
                                    \<and> tpl_system_id t = lock_system_id l))))))"
    by (rule check_before_grant_None)
qed

theorem grant_lock_mutual_exclusion_witness:
  "(\<exists>msg. grant methods_by_action (biz_with_policies []) no_faults \<lparr>role_id = 1\<rparr>
            \<lparr>group_id = 7, group_name = ''ops''\<rparr>
            [\<lparr>tpl_system_id = ''bk_cmdb'', tpl_template_id = 3, tpl_policies = [action_policy ''view'']\<rparr>]
            (empty_database\<lparr>group_authorize_locks :=
               [\<lparr>lock_group_id = 7, lock_template_id = 3, lock_system_id = ''bk_cmdb'',
                 lock_key = ''51ab'', lock_data = []\<rparr>]\<rparr>)
          = (Inl (CodeException VALIDATE_ERROR msg),
             empty_database\<lparr>group_authorize_locks :=
               [\<lparr>lock_group_id = 7, lock_template_id = 3, lock_system_id = ''bk_cmdb'',
                 lock_key = ''51ab'', lock_data = []\<rparr>]\<rparr>,
             [],
             [\<lparr>tpl_system_id = ''bk_cmdb'', tpl_template_id = 3, tpl_policies = [action_policy ''view'']\<rparr>]))
   \<and> check_before_grant
        (empty_database\<lparr>group_authorize_locks :=
               [\<lparr>lock_group_id = 7, lock_template_id = 3, lock_system_id = ''bk_cmdb'',
                 lock_key = ''51ab'', lock_data = []\<rparr>]\<rparr>)
        \<lparr>group_id = 7, group_name = ''ops''\<rparr>
        [\<lparr>tpl_system_id = ''bk_cmdb'', tpl_template_id = 9, tpl_policies = [action_policy ''view'']\<rparr>]
      = None"
proof -
  let ?db = "empty_database\<lparr>group_authorize_locks :=
               [\<lparr>lock_group_id = 7, lock_template_id = 3, lock_system_id = ''bk_cmdb'',
                 lock_key = ''51ab'', lock_data = []\<rparr>]\<rparr>"
  let ?grp = "\<lparr>group_id = 7, group_name = ''ops''\<rparr>"
  let ?t3 = "[\<lparr>tpl_system_id = ''bk_cmdb'', tpl_template_id = 3, tpl_policies = [action_policy ''view'']\<rparr>]"
  let ?t9 = "[\<lparr>tpl_system_id = ''bk_cmdb'', tpl_template_id = 9, tpl_policies = [action_policy ''view'']\<rparr>]"
  have a: "\<exists>msg. grant methods_by_action (biz_with_policies []) no_faults \<lparr>role_id = 1\<rparr> ?grp ?t3 ?db
          = (Inl (CodeException VALIDATE_ERROR msg), ?db, [], ?t3)"
    using grant_lock_mutual_exclusion
      [of ?db ?grp ?t3 methods_by_action "biz_with_policies []" no_faults "\<lparr>role_id = 1\<rparr>"]
    by (simp add: empty_database_def)
  have b: "check_before_grant ?db ?grp ?t9 = None"
    using grant_lock_mutual_exclusion
      [of ?db ?grp ?t9 methods_by_action "biz_with_policies []" no_faults "\<lparr>role_id = 1\<rparr>"]
    by (simp add: empty_database_def)
  from a b show ?thesis by simp
qed

subsection \<open>The lock of one permission source\<close>

lemma gen_grant_lock_Inr:
  assumes "gen_grant_lock m biz db subj template rl uuid = (Inr lock, template')"
  shows "lock_data lock = map (set_expired_at (PERMANENT_SECONDS biz)) (tpl_policies template)"
    and "lock_key lock = uuid"
    and "lock_template_id lock = tpl_template_id template"
    and "lock_system_id lock = tpl_system_id template"
    and "py_int (subject_id subj) = Inr (lock_group_id lock)"
    and "(if tpl_template_id template \<noteq> 0
          then check_add_member biz db (tpl_template_id template) subj
                 (map action_id (tpl_policies template))
          else valid_grant_actions_not_exists biz db subj (tpl_system_id template)
                 (map action_id (tpl_policies template))) = None"
    and "check_resource_name m (tpl_system_id template) (tpl_policies template) = None"
    and "scope_check_policies biz rl (tpl_system_id template) (tpl_policies template) = None"
  using assms unfolding gen_grant_lock_def Let_def
  by (auto split: option.splits sum.splits if_splits)

lemma gen_grant_lock_check_fails:
  assumes "(if tpl_template_id template \<noteq> 0
          then check_add_member biz db (tpl_template_id template) subj
                 (map action_id (tpl_policies template))
          else valid_grant_actions_not_exists biz db subj (tpl_system_id template)
                 (map action_id (tpl_policies template))) \<noteq> None
       \<or> check_resource_name m (tpl_system_id template) (tpl_policies template) \<noteq> None
       \<or> scope_check_policies biz rl (tpl_system_id template) (tpl_policies template) \<noteq> None"
  shows "\<exists>e. gen_grant_lock m biz db subj template rl uuid = (Inl e, template)"
  using assms unfolding gen_grant_lock_def Let_def
  by (auto split: option.splits sum.splits if_splits)

text \<open>
  C7. A lock that \<open>_gen_grant_lock\<close> returns holds the bean's policies with every
  expiration set to \<open>PERMANENT_SECONDS\<close>, and it is returned only when the template or
  add-only check, the resource name check and the role scope check have all passed on the
  policies as submitted; when one of them raises, the bean comes back as it was.
\<close>

theorem gen_grant_lock_permanent_after_checks:
  "(\<forall>lock template'. gen_grant_lock m biz db subj template rl uuid = (Inr lock, template') \<longrightarrow>
       lock_data lock = map (set_expired_at (PERMANENT_SECONDS biz)) (tpl_policies template)
     \<and> (\<forall>p \<in> set (lock_data lock). expired_at p = PERMANENT_SECONDS biz)
     \<and> map action_id (lock_data lock) = map action_id (tpl_policies template)
     \<and> (if tpl_template_id template \<noteq> 0
          then check_add_member biz db (tpl_template_id template) subj
                 (map action_id (tpl_policies template))
          else valid_grant_actions_not_exists biz db subj (tpl_system_id template)
                 (map action_id (tpl_policies template))) = None
     \<and> check_resource_name m (tpl_system_id template) (tpl_policies template) = None
     \<and> scope_check_policies biz rl (tpl_system_id template) (tpl_policies template) = None)
   \<and> (((if tpl_template_id template \<noteq> 0
          then check_add_member biz db (tpl_template_id template) subj
                 (map action_id (tpl_policies template))
          else valid_grant_actions_not_exists biz db subj (tpl_system_id template)
                 (map action_id (tpl_policies template))) \<noteq> None
        \<or> check_resource_name m (tpl_system_id template) (tpl_policies template) \<noteq> None
        \<or> scope_check_policies biz rl (tpl_system_id template) (tpl_policies template) \<noteq> None)
       \<longrightarrow> (\<exists>e. gen_grant_lock m biz db subj template rl uuid = (Inl e, template)))"
proof (intro conjI allI impI)
  fix lock template'
  assume a: "gen_grant_lock m biz db subj template rl uuid = (Inr lock, template')"
  show d: "lock_data lock = map (set_expired_at (PERMANENT_SECONDS biz)) (tpl_policies template)"
    by (rule gen_grant_lock_Inr(1) [OF a])
  show "\<forall>p \<in> set (lock_data lock). expired_at p = PERMANENT_SECONDS biz"
    unfolding d by (simp add: set_expired_at_def)
  show "map action_id (lock_data lock) = map action_id (tpl_policies template)"
    unfolding d by (simp add: set_expired_at_def comp_def)
  show "(if tpl_template_id template \<noteq> 0
          then check_add_member biz db (tpl_template_id template) subj
                 (map action_id (tpl_policies template))
          else valid_grant_actions_not_exists biz db subj (tpl_system_id template)
                 (map action_id (tpl_policies template))) = None"
    by (rule gen_grant_lock_Inr(6) [OF a])
  show "check_resource_name m (tpl_system_id template) (tpl_policies template) = None"
    by (rule gen_grant_lock_Inr(7) [OF a])
  show "scope_check_policies biz rl (tpl_system_id template) (tpl_policies template) = None"
    by (rule gen_grant_lock_Inr(8) [OF a])
next
  assume "(if tpl_template_id template \<noteq> 0
          then check_add_member biz db (tpl_template_id template) subj
                 (map action_id (tpl_policies template))
          else valid_grant_actions_not_exists biz db subj (tpl_system_id template)
                 (map action_id (tpl_policies template))) \<noteq> None
        \<or> check_resource_name m (tpl_system_id template) (tpl_policies template) \<noteq> None
        \<or> scope_check_policies biz rl (tpl_system_id template) (tpl_policies template) \<noteq> None"
  then show "\<exists>e. gen_grant_lock m biz db subj template rl uuid = (Inl e, template)"
    by (rule gen_grant_lock_check_fails)
qed

theorem gen_grant_lock_permanent_after_checks_witness:
  "(\<exists>lock template'.
      gen_grant_lock methods_by_action (biz_with_policies []) empty_database
        \<lparr>subject_type = GROUP, subject_id = py_str 7\<rparr>
        \<lparr>tpl_system_id = ''bk_cmdb'', tpl_template_id = 3,
          tpl_policies = [action_policy ''read'', action_policy ''write'']\<rparr>
        \<lparr>role_id = 1\<rparr> ''9f1c2e'' = (Inr lock, template')
      \<and> map action_id (lock_data lock) = [''read'', ''write'']
      \<and> map expired_at (lock_data lock) = [4102444800, 4102444800])
   \<and> (\<exists>e. gen_grant_lock methods_by_action (biz_with_policies [action_policy ''read''])
        empty_database \<lparr>subject_type = GROUP, subject_id = py_str 7\<rparr>
        \<lparr>tpl_system_id = ''bk_cmdb'', tpl_template_id = 0,
          tpl_policies = [action_policy ''read'', action_policy ''write'']\<rparr>
        \<lparr>role_id = 1\<rparr> ''9f1c2e''
       = (Inl e, \<lparr>tpl_system_id = ''bk_cmdb'', tpl_template_id = 0,
          tpl_policies = [action_policy ''read'', action_policy ''write'']\<rparr>))"
proof -
  let ?subj = "\<lparr>subject_type = GROUP, subject_id = py_str 7\<rparr>"
  let ?t = "\<lparr>tpl_system_id = ''bk_cmdb'', tpl_template_id = 3,
          tpl_policies = [action_policy ''read'', action_policy ''write'']\<rparr>"
  let ?c = "\<lparr>tpl_system_id = ''bk_cmdb'', tpl_template_id = 0,
          tpl_policies = [action_policy ''read'', action_policy ''write'']\<rparr>"
  obtain r t' where r: "gen_grant_lock methods_by_action (biz_with_policies []) empty_database
        ?subj ?t \<lparr>role_id = 1\<rparr> ''9f1c2e'' = (r, t')"
    by (cases "gen_grant_lock methods_by_action (biz_with_policies []) empty_database
        ?subj ?t \<lparr>role_id = 1\<rparr> ''9f1c2e''") blast
  have "\<exists>lock. r = Inr lock"
    using r by (cases r)
      (auto simp: gen_grant_lock_def biz_with_policies_def methods_by_action_def
        py_int_py_str Let_def)
  then obtain lock where l: "r = Inr lock" by blast
  have "lock_data lock = map (set_expired_at (PERMANENT_SECONDS (biz_with_policies [])))
          (tpl_policies ?t)"
    using gen_grant_lock_permanent_after_checks
      [of methods_by_action "biz_with_policies []" empty_database ?subj ?t "\<lparr>role_id = 1\<rparr>" "''9f1c2e''"]
      r l by blast
  then have "map action_id (lock_data lock) = [''read'', ''write'']
      \<and> map expired_at (lock_data lock) = [4102444800, 4102444800]"
    by (simp add: set_expired_at_def action_policy_def biz_with_policies_def)
  with r l have a: "\<exists>lock template'.
      gen_grant_lock methods_by_action (biz_with_policies []) empty_database
        ?subj ?t \<lparr>role_id = 1\<rparr> ''9f1c2e'' = (Inr lock, template')
      \<and> map action_id (lock_data lock) = [''read'', ''write'']
      \<and> map expired_at (lock_data lock) = [4102444800, 4102444800]"
    by auto
  have "valid_grant_actions_not_exists (biz_with_policies [action_policy ''read''])
          empty_database ?subj (tpl_system_id ?c) (map action_id (tpl_policies ?c)) \<noteq> None"
    by (simp add: valid_grant_actions_not_exists_def biz_with_policies_def action_policy_def
        policy_list_get_def)
  then have b: "\<exists>e. gen_grant_lock methods_by_action (biz_with_policies [action_policy ''read''])
        empty_database ?subj ?c \<lparr>role_id = 1\<rparr> ''9f1c2e'' = (Inl e, ?c)"
    using gen_grant_lock_permanent_after_checks
      [of methods_by_action "biz_with_policies [action_policy ''read'']" empty_database ?subj ?c
          "\<lparr>role_id = 1\<rparr>" "''9f1c2e''"]
    by simp
  from a b show ?thesis by blast
qed

subsection \<open>Locks and task of a grant\<close>

text \<open>
  For the subject of a group, \<open>_gen_grant_lock\<close> returns a lock when, and only when, the
  three checks pass on the bean as submitted, and then the lock is the one below.
\<close>

lemma gen_grant_lock_group_pass:
  assumes "(if tpl_template_id t \<noteq> 0
            then check_add_member biz db (tpl_template_id t)
                   \<lparr>subject_type = GROUP, subject_id = py_str gid\<rparr> (map action_id (tpl_policies t))
            else valid_grant_actions_not_exists biz db
                   \<lparr>subject_type = GROUP, subject_id = py_str gid\<rparr> (tpl_system_id t)
                   (map action_id (tpl_policies t))) = None"
    and "check_resource_name m (tpl_system_id t) (tpl_policies t) = None"
    and "scope_check_policies biz rl (tpl_system_id t) (tpl_policies t) = None"
  shows "gen_grant_lock m biz db \<lparr>subject_type = GROUP, subject_id = py_str gid\<rparr> t rl uuid
     = (Inr \<lparr>lock_group_id = gid, lock_template_id = tpl_template_id t,
              lock_system_id = tpl_system_id t, lock_key = uuid,
              lock_data = map (set_expired_at (PERMANENT_SECONDS biz)) (tpl_policies t)\<rparr>,
        t\<lparr>tpl_policies := map (set_expired_at (PERMANENT_SECONDS biz)) (tpl_policies t)\<rparr>)"
  using assms unfolding gen_grant_lock_def Let_def
  by (auto simp: py_int_py_str split: if_splits)

lemma gen_grant_locks_all_pass:
  assumes "\<forall>t \<in> set templates.
         (if tpl_template_id t \<noteq> 0
          then check_add_member biz db (tpl_template_id t)
                 \<lparr>subject_type = GROUP, subject_id = py_str gid\<rparr> (map action_id (tpl_policies t))
          else valid_grant_actions_not_exists biz db
                 \<lparr>subject_type = GROUP, subject_id = py_str gid\<rparr> (tpl_system_id t)
                 (map action_id (tpl_policies t))) = None
       \<and> check_resource_name m (tpl_system_id t) (tpl_policies t) = None
       \<and> scope_check_policies biz rl (tpl_system_id t) (tpl_policies t) = None"
  shows "gen_grant_locks m biz db \<lparr>subject_type = GROUP, subject_id = py_str gid\<rparr> rl uuid templates
     = (Inr (map (\<lambda>t. \<lparr>lock_group_id = gid, lock_template_id = tpl_template_id t,
                        lock_system_id = tpl_system_id t, lock_key = uuid,
                        lock_data = map (set_expired_at (PERMANENT_SECONDS biz)) (tpl_policies t)\<rparr>)
              templates),
        map (\<lambda>t. t\<lparr>tpl_policies := map (set_expired_at (PERMANENT_SECONDS biz)) (tpl_policies t)\<rparr>)
          templates)"
  using assms
proof (induction templates)
  case Nil
  show ?case by simp
next
  case (Cons t ts)
  from Cons.prems have t: "gen_grant_lock m biz db \<lparr>subject_type = GROUP, subject_id = py_str gid\<rparr> t rl uuid
     = (Inr \<lparr>lock_group_id = gid, lock_template_id = tpl_template_id t,
              lock_system_id = tpl_system_id t, lock_key = uuid,
              lock_data = map (set_expired_at (PERMANENT_SECONDS biz)) (tpl_policies t)\<rparr>,
        t\<lparr>tpl_policies := map (set_expired_at (PERMANENT_SECONDS biz)) (tpl_policies t)\<rparr>)"
    by (intro gen_grant_lock_group_pass) simp_all
  from Cons have "gen_grant_locks m biz db \<lparr>subject_type = GROUP, subject_id = py_str gid\<rparr> rl uuid ts
     = (Inr (map (\<lambda>t. \<lparr>lock_group_id = gid, lock_template_id = tpl_template_id t,
                        lock_system_id = tpl_system_id t, lock_key = uuid,
                        lock_data = map (set_expired_at (PERMANENT_SECONDS biz)) (tpl_policies t)\<rparr>)
              ts),
        map (\<lambda>t. t\<lparr>tpl_policies := map (set_expired_at (PERMANENT_SECONDS biz)) (tpl_policies t)\<rparr>)
          ts)"
    by simp
  with t show ?case by simp
qed

lemma gen_grant_locks_some_fail:
  assumes "\<exists>t \<in> set templates.
         (if tpl_template_id t \<noteq> 0
          then check_add_member biz db (tpl_template_id t) subj (map action_id (tpl_policies t))
          else valid_grant_actions_not_exists biz db subj (tpl_system_id t)
                 (map action_id (tpl_policies t))) \<noteq> None
       \<or> check_resource_name m (tpl_system_id t) (tpl_policies t) \<noteq> None
       \<or> scope_check_policies biz rl (tpl_system_id t) (tpl_policies t) \<noteq> None"
  shows "\<exists>e ts'. gen_grant_locks m biz db subj rl uuid templates = (Inl e, ts')"
  using assms
proof (induction templates)
  case Nil
  then show ?case by simp
next
  case (Cons t ts)
  obtain r t' where r: "gen_grant_lock m biz db subj t rl uuid = (r, t')"
    by (cases "gen_grant_lock m biz db subj t rl uuid") blast
  show ?case
  proof (cases r)
    case (Inl e)
    with r show ?thesis by simp
  next
    case (Inr lock)
    from gen_grant_lock_Inr(6,7,8) [OF r [unfolded Inr]] Cons.prems
    have "\<exists>t \<in> set ts.
         (if tpl_template_id t \<noteq> 0
          then check_add_member biz db (tpl_template_id t) subj (map action_id (tpl_policies t))
          else valid_grant_actions_not_exists biz db subj (tpl_system_id t)
                 (map action_id (tpl_policies t))) \<noteq> None
       \<or> check_resource_name m (tpl_system_id t) (tpl_policies t) \<noteq> None
       \<or> scope_check_policies biz rl (tpl_system_id t) (tpl_policies t) \<noteq> None"
      by auto
    from Cons.IH [OF this] obtain e ts' where
      "gen_grant_locks m biz db subj rl uuid ts = (Inl e, ts')" by blast
    with r Inr show ?thesis by simp
  qed
qed

text \<open>
  C2. \<open>grant\<close> leaves the tables as they were, hands no task over and raises, whenever
  the pre-check fails, or the template or add-only check, the resource name check or the
  role scope check fails for some bean, or the insert of the locks or of the task record
  fails. When the pre-check and the three checks of every bean pass and neither insert
  fails, the tables afterwards are the tables before plus exactly one lock per bean (the
  group, the bean's template and system, the uuid of the call as key, the bean's policies
  made permanent as data) plus the one task record of the batch, written in the one
  transaction.
\<close>

theorem grant_locks_and_task_atomic:
  assumes "grant m biz flt rl grp templates db = (res, db', delayed, templates')"
  shows "if check_before_grant db grp templates = None
            \<and> (\<forall>t \<in> set templates.
                  (if tpl_template_id t \<noteq> 0
                   then check_add_member biz db (tpl_template_id t)
                          \<lparr>subject_type = GROUP, subject_id = py_str (group_id grp)\<rparr>
                          (map action_id (tpl_policies t))
                   else valid_grant_actions_not_exists biz db
                          \<lparr>subject_type = GROUP, subject_id = py_str (group_id grp)\<rparr>
                          (tpl_system_id t) (map action_id (tpl_policies t))) = None
                \<and> check_resource_name m (tpl_system_id t) (tpl_policies t) = None
                \<and> scope_check_policies biz rl (tpl_system_id t) (tpl_policies t) = None)
            \<and> lock_bulk_create_error flt = None \<and> task_create_error flt = None
         then db' = db\<lparr>group_authorize_locks := group_authorize_locks db
                          @ map (\<lambda>t. \<lparr>lock_group_id = group_id grp,
                                       lock_template_id = tpl_template_id t,
                                       lock_system_id = tpl_system_id t,
                                       lock_key = gen_uuid biz,
                                       lock_data = map (set_expired_at (PERMANENT_SECONDS biz))
                                                     (tpl_policies t)\<rparr>) templates,
                        task_details := task_details db
                          @ [\<lparr>task_id = Suc (foldr max (map task_id (task_details db)) 0),
                              task_type = GROUP_AUTHORIZATION,
                              task_args = (\<lparr>subject_type = GROUP,
                                             subject_id = py_str (group_id grp)\<rparr>,
                                           gen_uuid biz)\<rparr>]\<rparr>
            \<and> (case task_delay_error flt of
                  None \<Rightarrow> res = Inr ()
                    \<and> delayed = [Suc (foldr max (map task_id (task_details db)) 0)]
                | Some e \<Rightarrow> res = Inl e \<and> delayed = [])
         else db' = db \<and> delayed = [] \<and> (\<exists>e. res = Inl e)"
    (is "if ?C then ?X else ?Y")
proof (cases "check_before_grant db grp templates")
  case (Some e)
  then have nc: "\<not> ?C" by simp
  from Some assms have y: ?Y by (auto simp: grant_def)
  show ?thesis
    by (subst if_not_P [OF nc]) (rule y)
next
  case None
  let ?subj = "\<lparr>subject_type = GROUP, subject_id = py_str (group_id grp)\<rparr>"
  let ?pass = "\<forall>t \<in> set templates.
                  (if tpl_template_id t \<noteq> 0
                   then check_add_member biz db (tpl_template_id t) ?subj
                          (map action_id (tpl_policies t))
                   else valid_grant_actions_not_exists biz db ?subj
                          (tpl_system_id t) (map action_id (tpl_policies t))) = None
                \<and> check_resource_name m (tpl_system_id t) (tpl_policies t) = None
                \<and> scope_check_policies biz rl (tpl_system_id t) (tpl_policies t) = None"
  show ?thesis
  proof (cases ?pass)
    case False
    then have "\<exists>t \<in> set templates.
         (if tpl_template_id t \<noteq> 0
          then check_add_member biz db (tpl_template_id t) ?subj (map action_id (tpl_policies t))
          else valid_grant_actions_not_exists biz db ?subj (tpl_system_id t)
                 (map action_id (tpl_policies t))) \<noteq> None
       \<or> check_resource_name m (tpl_system_id t) (tpl_policies t) \<noteq> None
       \<or> scope_check_policies biz rl (tpl_system_id t) (tpl_policies t) \<noteq> None"
      by blast
    from gen_grant_locks_some_fail [OF this] obtain e ts' where
      "gen_grant_locks m biz db ?subj rl (gen_uuid biz) templates = (Inl e, ts')" by blast
    with assms None have y: ?Y
      by (auto simp: grant_def Let_def)
    from False have nc: "\<not> ?C" by blast
    show ?thesis
      by (subst if_not_P [OF nc]) (rule y)
  next
    case True
    note g = gen_grant_locks_all_pass [OF True, of "gen_uuid biz"]
    show ?thesis
    proof (cases "lock_bulk_create_error flt")
      case (Some e)
      then have nc: "\<not> ?C" by simp
      from Some assms None g have y: ?Y
        by (auto simp: grant_def Let_def transaction_atomic_def bulk_create_locks_def)
      show ?thesis
        by (subst if_not_P [OF nc]) (rule y)
    next
      case bc: None
      show ?thesis
      proof (cases "task_create_error flt")
        case (Some e)
        then have nc: "\<not> ?C" by simp
        from Some assms None g bc have y: ?Y
          by (auto simp: grant_def Let_def transaction_atomic_def bulk_create_locks_def
              task_detail_create_def)
        show ?thesis
          by (subst if_not_P [OF nc]) (rule y)
      next
        case tc: None
        from assms None g bc tc have x: ?X
          by (auto simp: grant_def Let_def transaction_atomic_def bulk_create_locks_def
              task_detail_create_def split: option.splits)
        from None True bc tc have c: ?C by blast
        show ?thesis
          by (subst if_P [OF c]) (rule x)
      qed
    qed
  qed
qed

theorem grant_locks_and_task_atomic_witness:
  "(\<exists>ts'. grant methods_by_action (biz_with_policies []) no_faults \<lparr>role_id = 1\<rparr>
         \<lparr>group_id = 7, group_name = ''ops''\<rparr>
         [\<lparr>tpl_system_id = ''bk_cmdb'', tpl_template_id = 3,
           tpl_policies = [action_policy ''read'', action_policy ''write'']\<rparr>]
         empty_database
       = (Inr (),
          empty_database\<lparr>group_authorize_locks :=
              [\<lparr>lock_group_id = 7, lock_template_id = 3, lock_system_id = ''bk_cmdb'',
                lock_key = ''9f1c2e'',
                lock_data = [(action_policy ''read'')\<lparr>expired_at := 4102444800\<rparr>,
                             (action_policy ''write'')\<lparr>expired_at := 4102444800\<rparr>]\<rparr>],
            task_details :=
              [\<lparr>task_id = 1, task_type = GROUP_AUTHORIZATION,
                task_args = (\<lparr>subject_type = GROUP, subject_id = ''7''\<rparr>, ''9f1c2e'')\<rparr>]\<rparr>,
          [1], ts'))
   \<and> (\<exists>e ts'. grant methods_by_action (biz_with_policies [action_policy ''read'']) no_faults
         \<lparr>role_id = 1\<rparr> \<lparr>group_id = 7, group_name = ''ops''\<rparr>
         [\<lparr>tpl_system_id = ''bk_cmdb'', tpl_template_id = 0,
           tpl_policies = [action_policy ''read'']\<rparr>]
         empty_database = (Inl e, empty_database, [], ts'))
   \<and> (\<exists>e ts'. grant methods_by_action (biz_with_policies [])
         (no_faults\<lparr>task_create_error := Some (OtherException ''database is gone'')\<rparr>)
         \<lparr>role_id = 1\<rparr> \<lparr>group_id = 7, group_name = ''ops''\<rparr>
         [\<lparr>tpl_system_id = ''bk_cmdb'', tpl_template_id = 3,
           tpl_policies = [action_policy ''read'', action_policy ''write'']\<rparr>]
         empty_database = (Inl e, empty_database, [], ts'))"
proof -
  let ?biz = "biz_with_policies []"
  let ?held = "biz_with_policies [action_policy ''read'']"
  let ?grp = "\<lparr>group_id = 7, group_name = ''ops''\<rparr>"
  let ?rl = "\<lparr>role_id = 1\<rparr>"
  let ?ts = "[\<lparr>tpl_system_id = ''bk_cmdb'', tpl_template_id = 3,
           tpl_policies = [action_policy ''read'', action_policy ''write'']\<rparr>]"
  let ?custom = "[\<lparr>tpl_system_id = ''bk_cmdb'', tpl_template_id = 0,
           tpl_policies = [action_policy ''read'']\<rparr>]"
  let ?bad = "no_faults\<lparr>task_create_error := Some (OtherException ''database is gone'')\<rparr>"
  have s7: "py_str 7 = ''7''"
    by (simp add: py_str_def str_nat.simps digit_char_def)
  have pre: "\<And>ts. check_before_grant empty_database ?grp ts = None"
    by (simp add: check_before_grant_def empty_database_def)
  obtain res db' delayed ts' where g:
    "grant methods_by_action ?biz no_faults ?rl ?grp ?ts empty_database = (res, db', delayed, ts')"
    by (cases "grant methods_by_action ?biz no_faults ?rl ?grp ?ts empty_database") blast
  from grant_locks_and_task_atomic [OF g]
  have "res = Inr () \<and> delayed = [1]
      \<and> db' = empty_database\<lparr>group_authorize_locks :=
              [\<lparr>lock_group_id = 7, lock_template_id = 3, lock_system_id = ''bk_cmdb'',
                lock_key = ''9f1c2e'',
                lock_data = [(action_policy ''read'')\<lparr>expired_at := 4102444800\<rparr>,
                             (action_policy ''write'')\<lparr>expired_at := 4102444800\<rparr>]\<rparr>],
            task_details :=
              [\<lparr>task_id = 1, task_type = GROUP_AUTHORIZATION,
                task_args = (\<lparr>subject_type = GROUP, subject_id = ''7''\<rparr>, ''9f1c2e'')\<rparr>]\<rparr>"
    apply (simp add: pre no_faults_def biz_with_policies_def methods_by_action_def)
    apply (simp add: s7 empty_database_def set_expired_at_def)
    done
  with g have a: "\<exists>ts'. grant methods_by_action ?biz no_faults ?rl ?grp ?ts empty_database
       = (Inr (),
          empty_database\<lparr>group_authorize_locks :=
              [\<lparr>lock_group_id = 7, lock_template_id = 3, lock_system_id = ''bk_cmdb'',
                lock_key = ''9f1c2e'',
                lock_data = [(action_policy ''read'')\<lparr>expired_at := 4102444800\<rparr>,
                             (action_policy ''write'')\<lparr>expired_at := 4102444800\<rparr>]\<rparr>],
            task_details :=
              [\<lparr>task_id = 1, task_type = GROUP_AUTHORIZATION,
                task_args = (\<lparr>subject_type = GROUP, subject_id = ''7''\<rparr>, ''9f1c2e'')\<rparr>]\<rparr>,
          [1], ts')"
    by auto
  obtain res1 db1 delayed1 ts1 where g1:
    "grant methods_by_action ?held no_faults ?rl ?grp ?custom empty_database
       = (res1, db1, delayed1, ts1)"
    by (cases "grant methods_by_action ?held no_faults ?rl ?grp ?custom empty_database") blast
  from grant_locks_and_task_atomic [OF g1]
  have "db1 = empty_database \<and> delayed1 = [] \<and> (\<exists>e. res1 = Inl e)"
    by (simp add: pre valid_grant_actions_not_exists_def biz_with_policies_def action_policy_def
        policy_list_get_def)
  with g1 have b: "\<exists>e ts'. grant methods_by_action ?held no_faults ?rl ?grp ?custom empty_database
      = (Inl e, empty_database, [], ts')"
    by auto
  obtain res2 db2 delayed2 ts2 where g2:
    "grant methods_by_action ?biz ?bad ?rl ?grp ?ts empty_database = (res2, db2, delayed2, ts2)"
    by (cases "grant methods_by_action ?biz ?bad ?rl ?grp ?ts empty_database") blast
  from grant_locks_and_task_atomic [OF g2]
  have "db2 = empty_database \<and> delayed2 = [] \<and> (\<exists>e. res2 = Inl e)"
    by (simp add: pre no_faults_def)
  with g2 have c: "\<exists>e ts'. grant methods_by_action ?biz ?bad ?rl ?grp ?ts empty_database
      = (Inl e, empty_database, [], ts')"
    by auto
  from a b c show ?thesis by blast
qed

subsection \<open>Deleting a group\<close>

lemma delete_locked:
  "\<exists>l \<in> set (group_authorize_locks db). lock_group_id l = gid \<Longrightarrow>
     delete ops gid db = (Inl (CodeException VALIDATE_ERROR GroupAuthorizing), db)"
  by (simp add: delete_def list_ex_iff)

lemma delete_Inl_unchanged: "delete ops gid db = (Inl e, db') \<Longrightarrow> db' = db"
  unfolding delete_def transaction_atomic_def Let_def
  by (auto split: if_splits sum.splits)

lemma delete_Inr:
  "(delete ops gid db = (Inr (), db'))
     = (\<not> (\<exists>l \<in> set (group_authorize_locks db). lock_group_id l = gid)
        \<and> (\<exists>d1 d2 d4.
              delete_group_relation ops gid db = Inr d1
            \<and> delete_template_auth_by_subject ops
                 \<lparr>subject_type = GROUP, subject_id = py_str gid\<rparr> d1 = Inr d2
            \<and> batch_delete_attributes ops [gid]
                 (d2\<lparr>policy_models :=
                      filter (\<lambda>p. \<not> (pm_subject_type p = GROUP \<and> pm_subject_id p = py_str gid))
                        (policy_models d2)\<rparr>) = Inr d4
            \<and> group_svc_delete ops gid d4 = Inr db'))"
  unfolding delete_def transaction_atomic_def Let_def list_ex_iff
  by (auto split: if_splits sum.splits)

text \<open>
  C10. With a lock of the group in store, \<open>delete\<close> raises a validation error and leaves
  the tables as they were. It returns normally exactly when there is no such lock and the
  five deletions (role relation, template authorizations, the subject's policies, the
  attributes, the group itself) all succeed one after the other, and then the tables are
  those the last one leaves; whenever it raises, the tables are as before (one transaction).
\<close>

theorem delete_refused_while_authorizing:
  "((\<exists>l \<in> set (group_authorize_locks db). lock_group_id l = gid)
      \<longrightarrow> delete ops gid db = (Inl (CodeException VALIDATE_ERROR GroupAuthorizing), db))
   \<and> (\<forall>db'. (delete ops gid db = (Inr (), db'))
         = (\<not> (\<exists>l \<in> set (group_authorize_locks db). lock_group_id l = gid)
            \<and> (\<exists>d1 d2 d4.
                  delete_group_relation ops gid db = Inr d1
                \<and> delete_template_auth_by_subject ops
                     \<lparr>subject_type = GROUP, subject_id = py_str gid\<rparr> d1 = Inr d2
                \<and> batch_delete_attributes ops [gid]
                     (d2\<lparr>policy_models :=
                          filter (\<lambda>p. \<not> (pm_subject_type p = GROUP \<and> pm_subject_id p = py_str gid))
                            (policy_models d2)\<rparr>) = Inr d4
                \<and> group_svc_delete ops gid d4 = Inr db')))
   \<and> (\<forall>e db'. delete ops gid db = (Inl e, db') \<longrightarrow> db' = db)"
  using delete_locked [of db gid ops] delete_Inr [of ops gid db] delete_Inl_unchanged [of ops gid db]
  by blast

theorem delete_refused_while_authorizing_witness:
  "delete table_delete_ops 7
     (empty_database\<lparr>groups := [\<lparr>group_id = 7, group_name = ''ops''\<rparr>],
        group_authorize_locks := [\<lparr>lock_group_id = 7, lock_template_id = 3,
           lock_system_id = ''bk_cmdb'', lock_key = ''51ab'', lock_data = []\<rparr>]\<rparr>)
     = (Inl (CodeException VALIDATE_ERROR GroupAuthorizing),
        empty_database\<lparr>groups := [\<lparr>group_id = 7, group_name = ''ops''\<rparr>],
          group_authorize_locks := [\<lparr>lock_group_id = 7, lock_template_id = 3,
           lock_system_id = ''bk_cmdb'', lock_key = ''51ab'', lock_data = []\<rparr>]\<rparr>)
   \<and> delete table_delete_ops 7
     (empty_database\<lparr>groups := [\<lparr>group_id = 7, group_name = ''ops''\<rparr>],
        group_authorize_locks := [\<lparr>lock_group_id = 8, lock_template_id = 3,
           lock_system_id = ''bk_cmdb'', lock_key = ''51ab'', lock_data = []\<rparr>],
        policy_models := [\<lparr>pm_id = 1, pm_system_id = ''bk_cmdb'', pm_subject_type = GROUP,
           pm_subject_id = ''7'', pm_action_id = ''view'', pm_policy_id = 12, pm_resources = []\<rparr>]\<rparr>)
     = (Inr (),
        empty_database\<lparr>group_authorize_locks := [\<lparr>lock_group_id = 8, lock_template_id = 3,
           lock_system_id = ''bk_cmdb'', lock_key = ''51ab'', lock_data = []\<rparr>]\<rparr>)"
proof -
  let ?l7 = "\<lparr>lock_group_id = 7, lock_template_id = 3,
           lock_system_id = ''bk_cmdb'', lock_key = ''51ab'', lock_data = []\<rparr>"
  let ?l8 = "\<lparr>lock_group_id = 8, lock_template_id = 3,
           lock_system_id = ''bk_cmdb'', lock_key = ''51ab'', lock_data = []\<rparr>"
  let ?db7 = "empty_database\<lparr>groups := [\<lparr>group_id = 7, group_name = ''ops''\<rparr>],
        group_authorize_locks := [?l7]\<rparr>"
  let ?db8 = "empty_database\<lparr>groups := [\<lparr>group_id = 7, group_name = ''ops''\<rparr>],
        group_authorize_locks := [?l8],
        policy_models := [\<lparr>pm_id = 1, pm_system_id = ''bk_cmdb'', pm_subject_type = GROUP,
           pm_subject_id = ''7'', pm_action_id = ''view'', pm_policy_id = 12, pm_resources = []\<rparr>]\<rparr>"
  have s7: "py_str 7 = ''7''"
    by (simp add: py_str_def str_nat.simps digit_char_def)
  have a: "delete table_delete_ops 7 ?db7
      = (Inl (CodeException VALIDATE_ERROR GroupAuthorizing), ?db7)"
    using delete_refused_while_authorizing [of ?db7 7 table_delete_ops]
    by (simp add: empty_database_def)
  have b: "delete table_delete_ops 7 ?db8
      = (Inr (), empty_database\<lparr>group_authorize_locks := [?l8]\<rparr>)"
    using delete_refused_while_authorizing [of ?db8 7 table_delete_ops]
    by (simp add: empty_database_def table_delete_ops_def s7)
  from a b show ?thesis by simp
qed

subsection \<open>Altering the policies of a subject\<close>

text \<open>
  \<open>alter\<close> in one piece: what it returns, in terms of the three writes to the mirror, the
  answer of the backend and \<open>_sync_db_policy_id\<close>.
\<close>

lemma alter_unfold:
  "alter svc system_id subj c u d b db =
     (let cs = or_empty c; us = or_empty u; ds = or_empty d;
          called = (cs \<noteq> [] \<or> us \<noteq> [] \<or> ds \<noteq> []);
          answer = alter_policies svc b system_id (subject_type subj) (subject_id subj) cs us ds;
          b1 = (if called then snd answer else b);
          written = (if ds \<noteq> [] then delete_db_policies system_id subj ds else id)
                      ((if us \<noteq> [] then update_db_policies system_id subj us else id)
                        ((if cs \<noteq> [] then create_db_policies system_id subj cs else id) db));
          evs = AtomicEnter # (if cs \<noteq> [] then [DbCreate] else [])
                  @ (if us \<noteq> [] then [DbUpdate] else [])
                  @ (if ds \<noteq> [] then [DbDelete] else [])
                  @ (if called then [BackendAlter] else [])
      in case (if called then fst answer else None) of
           Some e \<Rightarrow> (Inl e, db, b1, evs @ [AtomicRollback])
         | None \<Rightarrow>
             if cs \<noteq> []
             then (fst (sync_db_policy_id svc b1 system_id subj written),
                   snd (sync_db_policy_id svc b1 system_id subj written),
                   b1, evs @ [AtomicCommit, SyncPolicyId])
             else (Inr (), written, b1, evs @ [AtomicCommit]))"
  unfolding alter_def alter_transaction_def transaction_atomic_with_def
    alter_backend_policies_def Let_def
  by (auto split: prod.splits option.splits sum.splits)

text \<open>
  C3. One call of \<open>alter\<close> enters the transaction, writes the mirror in the order
  create, update, delete (each only for a non-empty argument), then calls the backend once
  (when any argument is non-empty), and only then leaves the transaction; the
  synchronisation of identifiers comes after the commit. When the backend call raises, the
  transaction is rolled back: \<open>alter\<close> raises the same exception and the tables are as
  before the call. When it does not, the tables committed are the three writes applied in
  that order.
\<close>

theorem alter_order_and_rollback:
  assumes "alter svc system_id subj c u d b db = (res, db', b', evs)"
  shows "let cs = or_empty c; us = or_empty u; ds = or_empty d;
             called = (cs \<noteq> [] \<or> us \<noteq> [] \<or> ds \<noteq> []);
             answer = alter_policies svc b system_id (subject_type subj) (subject_id subj) cs us ds;
             raised = (if called then fst answer else None);
             written = (if ds \<noteq> [] then delete_db_policies system_id subj ds else id)
                         ((if us \<noteq> [] then update_db_policies system_id subj us else id)
                           ((if cs \<noteq> [] then create_db_policies system_id subj cs else id) db))
         in evs = [AtomicEnter]
                  @ (if cs \<noteq> [] then [DbCreate] else [])
                  @ (if us \<noteq> [] then [DbUpdate] else [])
                  @ (if ds \<noteq> [] then [DbDelete] else [])
                  @ (if called then [BackendAlter] else [])
                  @ (if raised \<noteq> None then [AtomicRollback] else [AtomicCommit])
                  @ (if raised = None \<and> cs \<noteq> [] then [SyncPolicyId] else [])
          \<and> (\<forall>e. raised = Some e \<longrightarrow> res = Inl e \<and> db' = db)
          \<and> (raised = None \<longrightarrow>
                (if cs \<noteq> []
                 then (res, db') = sync_db_policy_id svc b' system_id subj written
                 else res = Inr () \<and> db' = written))"
  using assms unfolding alter_unfold Let_def
  by (auto split: option.splits if_splits)


theorem alter_order_and_rollback_witness:
  "alter (sample_iam (Some (OtherException ''timeout''))) ''bk_cmdb''
       \<lparr>subject_type = GROUP, subject_id = ''7''\<rparr>
       (Some [action_policy ''edit'']) None (Some [12])
       [\<lparr>bp_id = 12, bp_action_id = ''view''\<rparr>]
       (empty_database\<lparr>policy_models :=
          [\<lparr>pm_id = 1, pm_system_id = ''bk_cmdb'', pm_subject_type = GROUP, pm_subject_id = ''7'',
            pm_action_id = ''view'', pm_policy_id = 12, pm_resources = []\<rparr>]\<rparr>)
     = (Inl (OtherException ''timeout''),
        empty_database\<lparr>policy_models :=
          [\<lparr>pm_id = 1, pm_system_id = ''bk_cmdb'', pm_subject_type = GROUP, pm_subject_id = ''7'',
            pm_action_id = ''view'', pm_policy_id = 12, pm_resources = []\<rparr>]\<rparr>,
        [\<lparr>bp_id = 12, bp_action_id = ''view''\<rparr>],
        [AtomicEnter, DbCreate, DbDelete, BackendAlter, AtomicRollback])
   \<and> snd (snd (snd (alter (sample_iam None) ''bk_cmdb''
       \<lparr>subject_type = GROUP, subject_id = ''7''\<rparr>
       (Some [action_policy ''edit'']) None (Some [12])
       [\<lparr>bp_id = 12, bp_action_id = ''view''\<rparr>]
       (empty_database\<lparr>policy_models :=
          [\<lparr>pm_id = 1, pm_system_id = ''bk_cmdb'', pm_subject_type = GROUP, pm_subject_id = ''7'',
            pm_action_id = ''view'', pm_policy_id = 12, pm_resources = []\<rparr>]\<rparr>))))
     = [AtomicEnter, DbCreate, DbDelete, BackendAlter, AtomicCommit, SyncPolicyId]"
proof -
  let ?subj = "\<lparr>subject_type = GROUP, subject_id = ''7''\<rparr>"
  let ?b = "[\<lparr>bp_id = 12, bp_action_id = ''view''\<rparr>]"
  let ?db = "empty_database\<lparr>policy_models :=
          [\<lparr>pm_id = 1, pm_system_id = ''bk_cmdb'', pm_subject_type = GROUP, pm_subject_id = ''7'',
            pm_action_id = ''view'', pm_policy_id = 12, pm_resources = []\<rparr>]\<rparr>"
  let ?down = "sample_iam (Some (OtherException ''timeout''))"
  obtain res db' b' evs where g: "alter ?down ''bk_cmdb'' ?subj (Some [action_policy ''edit''])
      None (Some [12]) ?b ?db = (res, db', b', evs)"
    by (cases "alter ?down ''bk_cmdb'' ?subj (Some [action_policy ''edit'']) None (Some [12]) ?b ?db")
      auto
  from alter_order_and_rollback [OF g]
  have "res = Inl (OtherException ''timeout'') \<and> db' = ?db
      \<and> evs = [AtomicEnter, DbCreate, DbDelete, BackendAlter, AtomicRollback]"
    by (simp add: Let_def or_empty_def sample_iam_def)
  moreover have "b' = ?b"
    using g by (simp add: alter_unfold Let_def or_empty_def sample_iam_def)
  ultimately have a: "alter ?down ''bk_cmdb'' ?subj (Some [action_policy ''edit''])
      None (Some [12]) ?b ?db
     = (Inl (OtherException ''timeout''), ?db, ?b,
        [AtomicEnter, DbCreate, DbDelete, BackendAlter, AtomicRollback])"
    using g by simp
  obtain res2 db2 b2 evs2 where g2: "alter (sample_iam None) ''bk_cmdb'' ?subj
      (Some [action_policy ''edit'']) None (Some [12]) ?b ?db = (res2, db2, b2, evs2)"
    by (cases "alter (sample_iam None) ''bk_cmdb'' ?subj (Some [action_policy ''edit'']) None
        (Some [12]) ?b ?db") auto
  from alter_order_and_rollback [OF g2]
  have "evs2 = [AtomicEnter, DbCreate, DbDelete, BackendAlter, AtomicCommit, SyncPolicyId]"
    by (simp add: Let_def or_empty_def sample_iam_def)
  with g2 have b: "snd (snd (snd (alter (sample_iam None) ''bk_cmdb'' ?subj
      (Some [action_policy ''edit'']) None (Some [12]) ?b ?db)))
     = [AtomicEnter, DbCreate, DbDelete, BackendAlter, AtomicCommit, SyncPolicyId]"
    by simp
  from a b show ?thesis by simp
qed

subsection \<open>Primary keys of the mirror\<close>

lemma foldr_max_ge: "x \<in> set xs \<Longrightarrow> x \<le> foldr max xs (0::nat)"
  by (induction xs) auto

lemma create_db_policies_pks:
  "map pm_id (policy_models (create_db_policies system_id subj ps db))
     = map pm_id (policy_models db)
       @ map (\<lambda>i. Suc (foldr max (map pm_id (policy_models db)) 0) + i) [0..<length ps]"
proof -
  let ?first = "Suc (foldr max (map pm_id (policy_models db)) 0)"
  have "map pm_id (map (\<lambda>(i, p). to_db_model system_id subj (?first + i) p)
                     (zip [0..<length ps] ps))
      = map (\<lambda>i. ?first + i) [0..<length ps]"
    by (rule nth_equalityI) (simp_all add: to_db_model_def)
  then show ?thesis
    by (simp add: create_db_policies_def Let_def)
qed

lemma create_db_policies_distinct:
  assumes "distinct (map pm_id (policy_models db))"
  shows "distinct (map pm_id (policy_models (create_db_policies system_id subj ps db)))"
proof -
  let ?first = "Suc (foldr max (map pm_id (policy_models db)) 0)"
  have new: "distinct (map (\<lambda>i. ?first + i) [0..<length ps])"
    by (simp add: distinct_map inj_on_def)
  have "\<And>x. x \<in> set (map pm_id (policy_models db)) \<Longrightarrow> x < ?first"
    using foldr_max_ge [of _ "map pm_id (policy_models db)"] by fastforce
  then have "set (map pm_id (policy_models db))
      \<inter> set (map (\<lambda>i. ?first + i) [0..<length ps]) = {}"
    by fastforce
  with assms new show ?thesis
    unfolding create_db_policies_pks distinct_append by blast
qed

lemma update_by_pk_pks:
  "(\<And>r. pm_id (f r) = pm_id r) \<Longrightarrow> map pm_id (update_by_pk pk f rows) = map pm_id rows"
  by (induction rows) (auto simp: update_by_pk_def)

lemma fold_update_resources_pks:
  "map pm_id (fold (\<lambda>p rows. case policy_list_get policies (pm_action_id p) of
                             None \<Rightarrow> rows
                           | Some update_policy \<Rightarrow>
                               update_by_pk (pm_id p)
                                 (\<lambda>r. r\<lparr>pm_resources := related_resource_types update_policy\<rparr>) rows)
                  qs rows) = map pm_id rows"
  by (induction qs arbitrary: rows) (auto simp: update_by_pk_pks split: option.splits)

lemma update_db_policies_pks:
  "map pm_id (policy_models (update_db_policies system_id subj ps db))
     = map pm_id (policy_models db)"
  by (simp add: update_db_policies_def Let_def fold_update_resources_pks)

lemma delete_db_policies_distinct:
  "distinct (map pm_id (policy_models db)) \<Longrightarrow>
     distinct (map pm_id (policy_models (delete_db_policies system_id subj ids db)))"
  by (simp add: delete_db_policies_def distinct_map_filter)

lemma written_distinct:
  assumes "distinct (map pm_id (policy_models db))"
  shows "distinct (map pm_id (policy_models
           ((if ds \<noteq> [] then delete_db_policies system_id subj ds else id)
             ((if us \<noteq> [] then update_db_policies system_id subj us else id)
               ((if cs \<noteq> [] then create_db_policies system_id subj cs else id) db)))))"
proof -
  let ?c = "(if cs \<noteq> [] then create_db_policies system_id subj cs else id) db"
  let ?u = "(if us \<noteq> [] then update_db_policies system_id subj us else id) ?c"
  from assms have c: "distinct (map pm_id (policy_models ?c))"
    by (simp add: create_db_policies_distinct)
  then have u: "distinct (map pm_id (policy_models ?u))"
    by (simp add: update_db_policies_pks)
  then show ?thesis
    by (simp add: delete_db_policies_distinct)
qed

subsection \<open>Synchronising the identifiers\<close>

lemma fold_update_policy_id:
  assumes "distinct (map pm_id qs)" and "\<And>q. pm_id (g q) = pm_id q"
  shows "fold (\<lambda>p rows. update_by_pk (pm_id p) (\<lambda>r. r\<lparr>pm_policy_id := pm_policy_id p\<rparr>) rows)
           (map g qs) rows
       = map (\<lambda>r. case find (\<lambda>q. pm_id q = pm_id r) qs of
                    None \<Rightarrow> r
                  | Some q \<Rightarrow> r\<lparr>pm_policy_id := pm_policy_id (g q)\<rparr>) rows"
  using assms(1)
proof (induction qs arbitrary: rows)
  case Nil
  show ?case by simp
next
  case (Cons q qs)
  from Cons.prems have "pm_id q \<notin> pm_id ` set qs" by simp
  then have nq: "find (\<lambda>q'. pm_id q' = pm_id q) qs = None"
    unfolding find_None_iff by (metis image_eqI)
  from Cons.prems have d: "distinct (map pm_id qs)" by simp
  have "fold (\<lambda>p rows. update_by_pk (pm_id p) (\<lambda>r. r\<lparr>pm_policy_id := pm_policy_id p\<rparr>) rows)
           (map g (q # qs)) rows
      = map (\<lambda>r. case find (\<lambda>q. pm_id q = pm_id r) qs of
                    None \<Rightarrow> r
                  | Some q \<Rightarrow> r\<lparr>pm_policy_id := pm_policy_id (g q)\<rparr>)
          (update_by_pk (pm_id (g q)) (\<lambda>r. r\<lparr>pm_policy_id := pm_policy_id (g q)\<rparr>) rows)"
    by (simp add: Cons.IH [OF d])
  also have "\<dots> = map (\<lambda>r. case find (\<lambda>q. pm_id q = pm_id r) (q # qs) of
                    None \<Rightarrow> r
                  | Some q \<Rightarrow> r\<lparr>pm_policy_id := pm_policy_id (g q)\<rparr>) rows"
    by (auto simp: update_by_pk_def assms(2) nq)
  finally show ?case .
qed

lemma find_Some_in: "find P xs = Some x \<Longrightarrow> P x \<and> x \<in> set xs"
  by (induction xs) (auto split: if_splits)

lemma find_filter_distinct:
  assumes "distinct (map pm_id rows)" and "r \<in> set rows"
  shows "find (\<lambda>q. pm_id q = pm_id r) (filter P rows) = (if P r then Some r else None)"
proof -
  from assms(1) have inj: "inj_on pm_id (set rows)" by (simp add: distinct_map)
  show ?thesis
  proof (cases "find (\<lambda>q. pm_id q = pm_id r) (filter P rows)")
    case None
    with assms(2) have "\<not> P r" by (auto simp: find_None_iff)
    with None show ?thesis by simp
  next
    case (Some q)
    then have "pm_id q = pm_id r" and "q \<in> set (filter P rows)"
      by (auto dest: find_Some_in)
    with inj assms(2) have "q = r" and "P r" by (auto dest: inj_onD)
    with Some show ?thesis by simp
  qed
qed

lemma sync_db_policy_id_rows:
  assumes "distinct (map pm_id (policy_models db))"
  shows "sync_db_policy_id svc b system_id subj db
     = (if \<not> (\<exists>r \<in> set (policy_models db).
                 pm_system_id r = system_id \<and> pm_subject_type r = subject_type subj
                 \<and> pm_subject_id r = subject_id subj \<and> pm_policy_id r = 0)
        then (Inr (), db)
        else (case new_backend_policy_list_by_subject svc b system_id subj of
                Inl e \<Rightarrow> (Inl e, db)
              | Inr backend_policy_list \<Rightarrow>
                  (Inr (),
                   db\<lparr>policy_models :=
                        map (\<lambda>r. if pm_system_id r = system_id
                                     \<and> pm_subject_type r = subject_type subj
                                     \<and> pm_subject_id r = subject_id subj \<and> pm_policy_id r = 0
                                  then (case backend_policy_list_get backend_policy_list
                                               (pm_action_id r) of
                                          None \<Rightarrow> r
                                        | Some backend_policy \<Rightarrow>
                                            r\<lparr>pm_policy_id := bp_id backend_policy\<rparr>)
                                  else r)
                          (policy_models db)\<rparr>)))"
proof -
  let ?Z = "\<lambda>r. pm_system_id r = system_id \<and> pm_subject_type r = subject_type subj
                 \<and> pm_subject_id r = subject_id subj \<and> pm_policy_id r = 0"
  let ?rows = "policy_models db"
  have len: "(length (filter ?Z ?rows) = 0) = (\<not> (\<exists>r \<in> set ?rows. ?Z r))"
    by (auto simp: filter_empty_conv)
  have dq: "distinct (map pm_id (filter ?Z ?rows))"
    using assms by (rule distinct_map_filter)
  have core: "fold (\<lambda>p rows. update_by_pk (pm_id p) (\<lambda>r. r\<lparr>pm_policy_id := pm_policy_id p\<rparr>) rows)
           (map (\<lambda>p. case backend_policy_list_get bl (pm_action_id p) of
                        None \<Rightarrow> p
                      | Some backend_policy \<Rightarrow> p\<lparr>pm_policy_id := bp_id backend_policy\<rparr>)
              (filter ?Z ?rows)) ?rows
       = map (\<lambda>r. if ?Z r
                   then (case backend_policy_list_get bl (pm_action_id r) of
                           None \<Rightarrow> r
                         | Some backend_policy \<Rightarrow> r\<lparr>pm_policy_id := bp_id backend_policy\<rparr>)
                   else r) ?rows" for bl
  proof -
    let ?g = "\<lambda>p. case backend_policy_list_get bl (pm_action_id p) of
                        None \<Rightarrow> p
                      | Some backend_policy \<Rightarrow> p\<lparr>pm_policy_id := bp_id backend_policy\<rparr>"
    have g: "\<And>q. pm_id (?g q) = pm_id q" by (simp split: option.splits)
    have "fold (\<lambda>p rows. update_by_pk (pm_id p) (\<lambda>r. r\<lparr>pm_policy_id := pm_policy_id p\<rparr>) rows)
           (map ?g (filter ?Z ?rows)) ?rows
        = map (\<lambda>r. case find (\<lambda>q. pm_id q = pm_id r) (filter ?Z ?rows) of
                    None \<Rightarrow> r
                  | Some q \<Rightarrow> r\<lparr>pm_policy_id := pm_policy_id (?g q)\<rparr>) ?rows"
      by (rule fold_update_policy_id [OF dq g])
    also have "\<dots> = map (\<lambda>r. if ?Z r then ?g r else r) ?rows"
    proof (rule map_cong [OF refl])
      fix r assume "r \<in> set ?rows"
      from find_filter_distinct [OF assms this, of ?Z]
      show "(case find (\<lambda>q. pm_id q = pm_id r) (filter ?Z ?rows) of
                    None \<Rightarrow> r
                  | Some q \<Rightarrow> r\<lparr>pm_policy_id := pm_policy_id (?g q)\<rparr>)
          = (if ?Z r then ?g r else r)"
        by (simp split: option.splits)
    qed
    finally show ?thesis .
  qed
  show ?thesis
    unfolding sync_db_policy_id_def Let_def len
    by (auto simp: core split: sum.splits)
qed

text \<open>
  C6. When \<open>alter\<close> returns normally and there were policies to create, it has called
  \<open>_sync_db_policy_id\<close> after the commit: if some row of the (system, subject) holds the
  placeholder 0, the backend's list was fetched and every such row whose action the list
  holds now carries the backend's identifier, all other rows being as committed. With
  nothing to create, \<open>_sync_db_policy_id\<close> is not called and the tables are as committed.
  (Primary keys are unique in the mirror.)
\<close>

theorem alter_syncs_policy_ids:
  assumes "alter svc system_id subj c u d b db = (Inr (), db', b', evs)"
    and "distinct (map pm_id (policy_models db))"
  shows "let cs = or_empty c; us = or_empty u; ds = or_empty d;
             written = (if ds \<noteq> [] then delete_db_policies system_id subj ds else id)
                         ((if us \<noteq> [] then update_db_policies system_id subj us else id)
                           ((if cs \<noteq> [] then create_db_policies system_id subj cs else id) db))
         in if cs \<noteq> []
            then SyncPolicyId \<in> set evs
               \<and> (if \<exists>r \<in> set (policy_models written).
                        pm_system_id r = system_id \<and> pm_subject_type r = subject_type subj
                        \<and> pm_subject_id r = subject_id subj \<and> pm_policy_id r = 0
                   then \<exists>backend_policy_list.
                          new_backend_policy_list_by_subject svc b' system_id subj
                            = Inr backend_policy_list
                        \<and> db' = written\<lparr>policy_models :=
                              map (\<lambda>r. if pm_system_id r = system_id
                                           \<and> pm_subject_type r = subject_type subj
                                           \<and> pm_subject_id r = subject_id subj
                                           \<and> pm_policy_id r = 0
                                        then (case backend_policy_list_get backend_policy_list
                                                     (pm_action_id r) of
                                                None \<Rightarrow> r
                                              | Some backend_policy \<Rightarrow>
                                                  r\<lparr>pm_policy_id := bp_id backend_policy\<rparr>)
                                        else r)
                                (policy_models written)\<rparr>
                   else db' = written)
            else SyncPolicyId \<notin> set evs \<and> db' = written"
proof -
  let ?cs = "or_empty c" and ?us = "or_empty u" and ?ds = "or_empty d"
  let ?written = "(if ?ds \<noteq> [] then delete_db_policies system_id subj ?ds else id)
                         ((if ?us \<noteq> [] then update_db_policies system_id subj ?us else id)
                           ((if ?cs \<noteq> [] then create_db_policies system_id subj ?cs else id) db))"
  let ?called = "?cs \<noteq> [] \<or> ?us \<noteq> [] \<or> ?ds \<noteq> []"
  let ?answer = "alter_policies svc b system_id (subject_type subj) (subject_id subj) ?cs ?us ?ds"
  have dw: "distinct (map pm_id (policy_models ?written))"
    using assms(2) by (rule written_distinct)
  note sync = sync_db_policy_id_rows [OF dw, of svc b' system_id subj]
  from assms(1) have raised: "(if ?called then fst ?answer else None) = None"
    unfolding alter_unfold Let_def by (auto split: option.splits if_splits)
  show ?thesis
  proof (cases "?cs = []")
    case True
    with assms(1) raised have "SyncPolicyId \<notin> set evs \<and> db' = ?written"
      unfolding alter_unfold Let_def by (auto split: option.splits if_splits)
    with True show ?thesis by (simp add: Let_def)
  next
    case False
    with assms(1) raised
    have ev: "SyncPolicyId \<in> set evs"
      and s: "sync_db_policy_id svc b' system_id subj ?written = (Inr (), db')"
      unfolding alter_unfold Let_def by (auto simp: prod_eq_iff split: option.splits if_splits)
    from s [unfolded sync] ev False show ?thesis
      by (auto simp: Let_def split: if_splits sum.splits)
  qed
qed

theorem alter_syncs_policy_ids_witness:
  "(\<exists>b' evs. alter (sample_iam None) ''bk_cmdb''
       \<lparr>subject_type = GROUP, subject_id = ''7''\<rparr>
       (Some [action_policy ''edit'']) None (Some [12])
       [\<lparr>bp_id = 12, bp_action_id = ''view''\<rparr>]
       (empty_database\<lparr>policy_models :=
          [\<lparr>pm_id = 1, pm_system_id = ''bk_cmdb'', pm_subject_type = GROUP, pm_subject_id = ''7'',
            pm_action_id = ''view'', pm_policy_id = 12, pm_resources = []\<rparr>]\<rparr>)
     = (Inr (),
        empty_database\<lparr>policy_models :=
          [\<lparr>pm_id = 2, pm_system_id = ''bk_cmdb'', pm_subject_type = GROUP, pm_subject_id = ''7'',
            pm_action_id = ''edit'', pm_policy_id = 100, pm_resources = []\<rparr>]\<rparr>,
        b', evs)
     \<and> SyncPolicyId \<in> set evs)
   \<and> (\<exists>b' evs. alter (sample_iam None) ''bk_cmdb''
       \<lparr>subject_type = GROUP, subject_id = ''7''\<rparr>
       None None (Some [12])
       [\<lparr>bp_id = 12, bp_action_id = ''view''\<rparr>]
       (empty_database\<lparr>policy_models :=
          [\<lparr>pm_id = 1, pm_system_id = ''bk_cmdb'', pm_subject_type = GROUP, pm_subject_id = ''7'',
            pm_action_id = ''view'', pm_policy_id = 12, pm_resources = []\<rparr>]\<rparr>)
     = (Inr (), empty_database\<lparr>policy_models := []\<rparr>, b', evs)
     \<and> SyncPolicyId \<notin> set evs)"
proof -
  let ?subj = "\<lparr>subject_type = GROUP, subject_id = ''7''\<rparr>"
  let ?b = "[\<lparr>bp_id = 12, bp_action_id = ''view''\<rparr>]"
  let ?db = "empty_database\<lparr>policy_models :=
          [\<lparr>pm_id = 1, pm_system_id = ''bk_cmdb'', pm_subject_type = GROUP, pm_subject_id = ''7'',
            pm_action_id = ''view'', pm_policy_id = 12, pm_resources = []\<rparr>]\<rparr>"
  have d: "distinct (map pm_id (policy_models ?db))" by simp
  obtain res db' b' evs where g: "alter (sample_iam None) ''bk_cmdb'' ?subj
      (Some [action_policy ''edit'']) None (Some [12]) ?b ?db = (res, db', b', evs)"
    by (cases "alter (sample_iam None) ''bk_cmdb'' ?subj (Some [action_policy ''edit'']) None
        (Some [12]) ?b ?db") auto
  have "fst (alter (sample_iam None) ''bk_cmdb'' ?subj
      (Some [action_policy ''edit'']) None (Some [12]) ?b ?db) = Inr ()"
    by (simp add: alter_unfold Let_def or_empty_def sample_iam_def sync_db_policy_id_def
        create_db_policies_def delete_db_policies_def to_db_model_def empty_database_def
        action_policy_def)
  with g have r: "res = Inr ()" by simp
  have bk: "b' = [\<lparr>bp_id = 100, bp_action_id = ''edit''\<rparr>]"
    using g by (simp add: alter_unfold Let_def or_empty_def sample_iam_def action_policy_def)
  from alter_syncs_policy_ids [OF g [unfolded r] d]
  have "SyncPolicyId \<in> set evs \<and> db' = empty_database\<lparr>policy_models :=
          [\<lparr>pm_id = 2, pm_system_id = ''bk_cmdb'', pm_subject_type = GROUP, pm_subject_id = ''7'',
            pm_action_id = ''edit'', pm_policy_id = 100, pm_resources = []\<rparr>]\<rparr>"
    apply (simp add: Let_def or_empty_def)
    apply (simp add: create_db_policies_def delete_db_policies_def to_db_model_def
        empty_database_def action_policy_def sample_iam_def backend_policy_list_get_def Let_def bk)
    done
  with g r have a: "\<exists>b' evs. alter (sample_iam None) ''bk_cmdb'' ?subj
       (Some [action_policy ''edit'']) None (Some [12]) ?b ?db
     = (Inr (),
        empty_database\<lparr>policy_models :=
          [\<lparr>pm_id = 2, pm_system_id = ''bk_cmdb'', pm_subject_type = GROUP, pm_subject_id = ''7'',
            pm_action_id = ''edit'', pm_policy_id = 100, pm_resources = []\<rparr>]\<rparr>,
        b', evs)
     \<and> SyncPolicyId \<in> set evs"
    by auto
  obtain res2 db2 b2 evs2 where g2: "alter (sample_iam None) ''bk_cmdb'' ?subj
      None None (Some [12]) ?b ?db = (res2, db2, b2, evs2)"
    by (cases "alter (sample_iam None) ''bk_cmdb'' ?subj None None (Some [12]) ?b ?db") auto
  have "fst (alter (sample_iam None) ''bk_cmdb'' ?subj None None (Some [12]) ?b ?db) = Inr ()"
    by (simp add: alter_unfold Let_def or_empty_def sample_iam_def)
  with g2 have r2: "res2 = Inr ()" by simp
  from alter_syncs_policy_ids [OF g2 [unfolded r2] d]
  have "SyncPolicyId \<notin> set evs2 \<and> db2 = empty_database\<lparr>policy_models := []\<rparr>"
    by (simp add: Let_def or_empty_def delete_db_policies_def empty_database_def)
  with g2 r2 have b: "\<exists>b' evs. alter (sample_iam None) ''bk_cmdb'' ?subj
       None None (Some [12]) ?b ?db
     = (Inr (), empty_database\<lparr>policy_models := []\<rparr>, b', evs)
     \<and> SyncPolicyId \<notin> set evs"
    by auto
  from a b show ?thesis by blast
qed

subsection \<open>The name check of updated and applied policies\<close>

text \<open>
  C5. \<open>check_update_policies_resource_name\<close> and \<open>_gen_need_apply_policy_list\<close> call the
  resource name check once, on the requested policies minus the policies already held (the
  subject's custom policies for template id 0, else the actions of the template's
  authorization; the applicant's policies for an application), and on no other list, so not
  on the requested set itself unless nothing is subtracted; their outcome is that of the
  check on this difference. When the template's authorization cannot be read, no name check
  is made at all.
\<close>

theorem name_check_on_added_policies:
  "(\<forall>old. (if template_id = 0 then Inr (list_by_subject biz db system_id subj)
            else get_by_subject_template biz db subj template_id) = Inr old
       \<longrightarrow> check_update_policies_resource_name m biz db system_id template_id policies subj
            = ([sub m system_id policies old],
               check_resource_name m system_id (sub m system_id policies old)))
   \<and> (\<forall>e. (if template_id = 0 then Inr (list_by_subject biz db system_id subj)
            else get_by_subject_template biz db subj template_id) = Inl e
       \<longrightarrow> check_update_policies_resource_name m biz db system_id template_id policies subj
            = ([], Some e))
   \<and> fst (gen_need_apply_policy_list m tr now db applicant system_id policies)
        = [sub m system_id policies
             (new_policy_list tr db system_id \<lparr>subject_type = USER, subject_id = applicant\<rparr>)]
   \<and> (\<forall>e. check_resource_name m system_id
               (sub m system_id policies
                  (new_policy_list tr db system_id \<lparr>subject_type = USER, subject_id = applicant\<rparr>))
             = Some e
       \<longrightarrow> snd (gen_need_apply_policy_list m tr now db applicant system_id policies) = Inl e)
   \<and> (check_resource_name m system_id
          (sub m system_id policies
             (new_policy_list tr db system_id \<lparr>subject_type = USER, subject_id = applicant\<rparr>))
         = None
       \<longrightarrow> snd (gen_need_apply_policy_list m tr now db applicant system_id policies)
            = (let old = new_policy_list tr db system_id
                           \<lparr>subject_type = USER, subject_id = applicant\<rparr>;
                   application_policies =
                     application_policies_of now old (sub m system_id policies old) policies
               in if application_policies = []
                  then Inl (CodeException INVALID_ARGS NoChange)
                  else Inr application_policies))"
  unfolding check_update_policies_resource_name_def gen_need_apply_policy_list_def Let_def
  by (auto split: option.splits sum.splits)

theorem name_check_on_added_policies_witness:
  "check_update_policies_resource_name
       (methods_by_instance [(''X'', ''x-new''), (''Y'', ''y'')])
       (biz_with_policies [host_policy ''view'' [(''X'', ''x-old'')]])
       empty_database ''bk_cmdb'' 0
       [host_policy ''view'' [(''X'', ''x-old''), (''Y'', ''y'')]]
       \<lparr>subject_type = GROUP, subject_id = ''7''\<rparr>
     = ([[host_policy ''view'' [(''Y'', ''y'')]]], None)
   \<and> check_names [(''X'', ''x-new''), (''Y'', ''y'')] ''bk_cmdb''
       [host_policy ''view'' [(''X'', ''x-old''), (''Y'', ''y'')]]
     = Some (CodeException VALIDATE_ERROR (Text ''resource name''))
   \<and> gen_need_apply_policy_list
       (methods_by_instance [(''X'', ''x-new''), (''Y'', ''y'')])
       \<lparr>new_policy_list = (\<lambda>db system_id subj. [host_policy ''view'' [(''X'', ''x-old'')]])\<rparr>
       1700000000 empty_database ''admin'' ''bk_cmdb''
       [host_policy ''view'' [(''X'', ''x-old''), (''Y'', ''y'')]]
     = ([[host_policy ''view'' [(''Y'', ''y'')]]], Inr [host_policy ''view'' [(''Y'', ''y'')]])"
proof -
  let ?m = "methods_by_instance [(''X'', ''x-new''), (''Y'', ''y'')]"
  let ?old = "[host_policy ''view'' [(''X'', ''x-old'')]]"
  let ?req = "[host_policy ''view'' [(''X'', ''x-old''), (''Y'', ''y'')]]"
  let ?biz = "biz_with_policies ?old"
  let ?tr = "\<lparr>new_policy_list = (\<lambda>db system_id subj. ?old)\<rparr>"
  let ?subj = "\<lparr>subject_type = GROUP, subject_id = ''7''\<rparr>"
  have diff: "sub ?m ''bk_cmdb'' ?req ?old = [host_policy ''view'' [(''Y'', ''y'')]]"
    by (simp add: methods_by_instance_def sub_instances_def host_policy_def policy_list_get_def)
  have ok: "check_resource_name ?m ''bk_cmdb'' [host_policy ''view'' [(''Y'', ''y'')]] = None"
    by (simp add: methods_by_instance_def check_names_def host_policy_def)
  have full: "check_names [(''X'', ''x-new''), (''Y'', ''y'')] ''bk_cmdb'' ?req
      = Some (CodeException VALIDATE_ERROR (Text ''resource name''))"
    by (simp add: check_names_def host_policy_def)
  note t = name_check_on_added_policies
    [of 0 ?biz empty_database "''bk_cmdb''" ?subj ?m ?req ?tr 1700000000 "''admin''"]
  have a: "check_update_policies_resource_name ?m ?biz empty_database ''bk_cmdb'' 0 ?req ?subj
      = ([[host_policy ''view'' [(''Y'', ''y'')]]], None)"
    using t diff ok by (simp add: biz_with_policies_def)
  have f: "fst (gen_need_apply_policy_list ?m ?tr 1700000000 empty_database ''admin'' ''bk_cmdb'' ?req)
      = [[host_policy ''view'' [(''Y'', ''y'')]]]"
    using t diff by simp
  have s: "snd (gen_need_apply_policy_list ?m ?tr 1700000000 empty_database ''admin'' ''bk_cmdb'' ?req)
      = Inr [host_policy ''view'' [(''Y'', ''y'')]]"
    using t diff ok
    by (simp add: Let_def policy_list_get_def is_expired_def set_expired_at_def host_policy_def)
  from f s have b: "gen_need_apply_policy_list ?m ?tr 1700000000 empty_database ''admin'' ''bk_cmdb'' ?req
      = ([[host_policy ''view'' [(''Y'', ''y'')]]], Inr [host_policy ''view'' [(''Y'', ''y'')]])"
    by (simp add: prod_eq_iff)
  from a full b show ?thesis by simp
qed

end
